theory Spec2Isabelle
  imports Complex_Main "HOL-Library.Word"
begin

unbundle bit_operations_syntax

section \<open>The WDI autofocus adapter (WdiAutofocus.h, WdiAutofocus.cpp)\<close>

subsection \<open>Return codes, errors, action types\<close>

text \<open>
  The adapter reports failures as integer return codes; the library calls it makes throw
  exceptions. Both are values here: a library call yields \<open>error + 'a\<close> together with the
  state reached so far, and an adapter entry point yields a \<open>retcode\<close>. The error taxonomy
  is the one of the specification (section 7), with the transport library's resolution
  failure (section 6) beside it.
\<close>

datatype error = ConnectionError | ResolutionError | DeviceCommunicationError | ConfigurationError

datatype retcode = DEVICE_OK | DEVICE_ERR error

text \<open>\<open>MM::ActionType\<close>: the reason a property handler is invoked.\<close>

datatype ActionType =
  NoAction | BeforeGet | AfterSet | IsSequenceable | AfterLoadSequence | StartSequence | StopSequence

subsection \<open>Handles of the motion library\<close>

text \<open>
  The handles the adapter stores are plain data: a device is its address, an axis its
  device and axis number, an autofocus handle the triple given to its constructor.
\<close>

datatype Device = Device int

datatype Axis = Axis Device int

datatype WdiAutofocusProvider = WdiAutofocusProvider int

fun getProviderId :: "WdiAutofocusProvider \<Rightarrow> int" where
  "getProviderId (WdiAutofocusProvider i) = i"

record Autofocus =
  af_providerId :: int
  af_focusAxis :: Axis
  af_objectiveTurret :: "Device option"

definition getFocusAxis :: "Autofocus \<Rightarrow> Axis" where
  "getFocusAxis a = af_focusAxis a"

record AutofocusStatus =
  inFocus :: bool
  inRange :: bool

definition getInFocus :: "AutofocusStatus \<Rightarrow> bool" where
  "getInFocus st = inFocus st"

text \<open>
  Every call into the library is recorded, in order, so that statements about which device
  interaction happened (and which did not) can be made.
\<close>

datatype call =
    Call_openTcp string int
  | Call_getDevice int
  | Call_getAxis Device int
  | Call_isBusy Axis
  | Call_getStatus Autofocus
  | Call_settings_get Axis string
  | Call_setLimitMin Autofocus real
  | Call_setLimitMax Autofocus real
  | Call_focusOnce Autofocus bool
  | Call_startFocusLoop Autofocus
  | Call_stopFocusLoop Autofocus
  | Call_genericRead WdiAutofocusProvider int int int int string

text \<open>
  The outside world: what each library call answers. \<open>None\<close> (or \<open>False\<close>) means the call
  throws. The host framework's \<open>UpdateStatus\<close> is part of it.
\<close>

record transport =
  openTcp_result :: "string \<Rightarrow> int \<Rightarrow> int option"
  device_resolves :: "int \<Rightarrow> bool"
  axis_resolves :: "Device \<Rightarrow> int \<Rightarrow> bool"
  isBusy_result :: "Axis \<Rightarrow> bool option"
  getStatus_result :: "Autofocus \<Rightarrow> AutofocusStatus option"
  settings_get_result :: "Axis \<Rightarrow> string \<Rightarrow> real option"
  setLimitMin_ok :: "Autofocus \<Rightarrow> real \<Rightarrow> bool"
  setLimitMax_ok :: "Autofocus \<Rightarrow> real \<Rightarrow> bool"
  focusOnce_ok :: "Autofocus \<Rightarrow> bool \<Rightarrow> bool"
  startFocusLoop_ok :: "Autofocus \<Rightarrow> bool"
  stopFocusLoop_ok :: "Autofocus \<Rightarrow> bool"
  genericRead_result :: "WdiAutofocusProvider \<Rightarrow> int \<Rightarrow> int \<Rightarrow> int \<Rightarrow> int \<Rightarrow> string \<Rightarrow> int list option"
  UpdateStatus_result :: retcode

subsection \<open>The property table of the host framework\<close>

datatype PropertyType = MM_String | MM_Float | MM_Integer

datatype prop_value = PStr string | PInt int | PFloat real

text \<open>\<open>CPropertyAction(this, &WdiAutofocus::...)\<close>: which handler a property is bound to.\<close>

datatype action =
    No_Action
  | Act_PortGetSet
  | Act_WdiHostGetSet
  | Act_WdiPortGetSet
  | Act_FocusAddressGetSet
  | Act_FocusAxisGetSet
  | Act_ObjectiveTurretAddressGetSet
  | Act_LimitMinGetSet
  | Act_LimitMaxGetSet

record property =
  pvalue :: prop_value
  ptype :: PropertyType
  readOnly :: bool
  pAct :: action
  isPreInitProperty :: bool
  limits :: "(real \<times> real) option"

subsection \<open>The adapter object\<close>

text \<open>
  Doubles are taken as reals and \<open>long\<close>s as integers: the adapter only stores and
  compares the integers, and the rounding of arithmetic on doubles is outside this
  model. The conversion of an integer reading to \<open>float\<close> is modelled exactly
  (\<open>int_to_float\<close> below). A member \<open>x_\<close> of the class is the field \<open>x_m\<close> here (Isabelle reserves
  names that end in an underscore). \<open>calls\<close> is the record of library calls made so far.
\<close>

datatype ConnectionState = Disconnected | Connected

record WdiAutofocus =
  initialized_m :: bool
  connection_m :: ConnectionState
  port_m :: string
  wdiPort_m :: int
  wdiHost_m :: string
  focusAddress_m :: int
  focusAxis_m :: int
  objectiveTurretAddress_m :: int
  limitMin_m :: real
  limitMax_m :: real
  provider_m :: WdiAutofocusProvider
  autofocus_m :: Autofocus
  properties :: "string \<rightharpoonup> property"
  calls :: "call list"

text \<open>\<open>WdiAutofocus_::xLdaNativePerMm\<close> (WdiAutofocus.h).\<close>

definition xLdaNativePerMm :: real where
  "xLdaNativePerMm = 1000000"

subsection \<open>Exceptions and state\<close>

text \<open>
  A computation that may throw returns the exception or its value, and always the state:
  what was assigned before the throw stays assigned.
\<close>

definition bindE :: "('s \<Rightarrow> (error + 'a) \<times> 's) \<Rightarrow> ('a \<Rightarrow> 's \<Rightarrow> (error + 'b) \<times> 's) \<Rightarrow> 's \<Rightarrow> (error + 'b) \<times> 's" where
  "bindE m f s = (case m s of (Inl e, s') \<Rightarrow> (Inl e, s') | (Inr a, s') \<Rightarrow> f a s')"

text \<open>
  A library call: it is recorded, then it returns its value or throws \<open>e\<close>.
\<close>

definition lib_call :: "call \<Rightarrow> error \<Rightarrow> 'a option \<Rightarrow> WdiAutofocus \<Rightarrow> (error + 'a) \<times> WdiAutofocus" where
  "lib_call c e r s =
     ((case r of None \<Rightarrow> Inl e | Some v \<Rightarrow> Inr v), s\<lparr>calls := calls s @ [c]\<rparr>)"

definition ok :: "bool \<Rightarrow> unit option" where
  "ok b = (if b then Some () else None)"

text \<open>
  Modelled from the spec: the contracts of the transport library (section 6), which is an
  external collaborator. Opening the endpoint fails with ConnectionError, resolving a device
  or an axis with ResolutionError, and a call during an established session with
  DeviceCommunicationError (section 7).
\<close>

definition WdiAutofocusProvider_openTcp :: "transport \<Rightarrow> string \<Rightarrow> int \<Rightarrow> WdiAutofocus \<Rightarrow> (error + WdiAutofocusProvider) \<times> WdiAutofocus" where
  "WdiAutofocusProvider_openTcp env host port =
     lib_call (Call_openTcp host port) ConnectionError
       (map_option WdiAutofocusProvider (openTcp_result env host port))"

definition Connection_getDevice :: "transport \<Rightarrow> int \<Rightarrow> WdiAutofocus \<Rightarrow> (error + Device) \<times> WdiAutofocus" where
  "Connection_getDevice env a =
     lib_call (Call_getDevice a) ResolutionError
       (if device_resolves env a then Some (Device a) else None)"

definition Device_getAxis :: "transport \<Rightarrow> Device \<Rightarrow> int \<Rightarrow> WdiAutofocus \<Rightarrow> (error + Axis) \<times> WdiAutofocus" where
  "Device_getAxis env d n =
     lib_call (Call_getAxis d n) ResolutionError
       (if axis_resolves env d n then Some (Axis d n) else None)"

definition Axis_isBusy :: "transport \<Rightarrow> Axis \<Rightarrow> WdiAutofocus \<Rightarrow> (error + bool) \<times> WdiAutofocus" where
  "Axis_isBusy env ax = lib_call (Call_isBusy ax) DeviceCommunicationError (isBusy_result env ax)"

definition Autofocus_getStatus :: "transport \<Rightarrow> Autofocus \<Rightarrow> WdiAutofocus \<Rightarrow> (error + AutofocusStatus) \<times> WdiAutofocus" where
  "Autofocus_getStatus env af =
     lib_call (Call_getStatus af) DeviceCommunicationError (getStatus_result env af)"

definition AxisSettings_get :: "transport \<Rightarrow> Axis \<Rightarrow> string \<Rightarrow> WdiAutofocus \<Rightarrow> (error + real) \<times> WdiAutofocus" where
  "AxisSettings_get env ax name =
     lib_call (Call_settings_get ax name) DeviceCommunicationError (settings_get_result env ax name)"

definition Autofocus_setLimitMin :: "transport \<Rightarrow> Autofocus \<Rightarrow> real \<Rightarrow> WdiAutofocus \<Rightarrow> (error + unit) \<times> WdiAutofocus" where
  "Autofocus_setLimitMin env af v =
     lib_call (Call_setLimitMin af v) DeviceCommunicationError (ok (setLimitMin_ok env af v))"

definition Autofocus_setLimitMax :: "transport \<Rightarrow> Autofocus \<Rightarrow> real \<Rightarrow> WdiAutofocus \<Rightarrow> (error + unit) \<times> WdiAutofocus" where
  "Autofocus_setLimitMax env af v =
     lib_call (Call_setLimitMax af v) DeviceCommunicationError (ok (setLimitMax_ok env af v))"

definition Autofocus_focusOnce :: "transport \<Rightarrow> Autofocus \<Rightarrow> bool \<Rightarrow> WdiAutofocus \<Rightarrow> (error + unit) \<times> WdiAutofocus" where
  "Autofocus_focusOnce env af scan =
     lib_call (Call_focusOnce af scan) DeviceCommunicationError (ok (focusOnce_ok env af scan))"

definition Autofocus_startFocusLoop :: "transport \<Rightarrow> Autofocus \<Rightarrow> WdiAutofocus \<Rightarrow> (error + unit) \<times> WdiAutofocus" where
  "Autofocus_startFocusLoop env af =
     lib_call (Call_startFocusLoop af) DeviceCommunicationError (ok (startFocusLoop_ok env af))"

definition Autofocus_stopFocusLoop :: "transport \<Rightarrow> Autofocus \<Rightarrow> WdiAutofocus \<Rightarrow> (error + unit) \<times> WdiAutofocus" where
  "Autofocus_stopFocusLoop env af =
     lib_call (Call_stopFocusLoop af) DeviceCommunicationError (ok (stopFocusLoop_ok env af))"

definition WdiAutofocusProvider_genericRead :: "transport \<Rightarrow> WdiAutofocusProvider \<Rightarrow> int \<Rightarrow> int \<Rightarrow> int \<Rightarrow> int \<Rightarrow> string \<Rightarrow> WdiAutofocus \<Rightarrow> (error + int list) \<times> WdiAutofocus" where
  "WdiAutofocusProvider_genericRead env p reg sz cnt off bank =
     lib_call (Call_genericRead p reg sz cnt off bank) DeviceCommunicationError
       (genericRead_result env p reg sz cnt off bank)"

subsection \<open>The base class ZaberBase\<close>

text \<open>
  Modelled from the spec: \<open>ZaberBase::onNewConnection\<close>, the base-class hook that the
  override calls first; Zaber.cpp is not among the sources and the specification names no
  effect of it.
\<close>

definition ZaberBase_onNewConnection :: "WdiAutofocus \<Rightarrow> WdiAutofocus" where
  "ZaberBase_onNewConnection s = s"

text \<open>
  Modelled from the spec: \<open>ZaberBase::resetConnection\<close> (Zaber.cpp is not among the
  sources). Section 3: the connection is destroyed (marked Disconnected).
\<close>

definition resetConnection :: "WdiAutofocus \<Rightarrow> WdiAutofocus" where
  "resetConnection s = s\<lparr>connection_m := Disconnected\<rparr>"

text \<open>
  Modelled from the spec: \<open>ZaberBase::handleException\<close> (Zaber.cpp is not among the
  sources). It runs the wrapped code and turns an exception into the return code of that
  error; it leaves the state as the wrapped code left it (section 7: connection state
  unchanged by default). The wrapped lambda's state is the object together with the locals
  it captures by reference.
\<close>

definition handleException :: "('s \<Rightarrow> (error + unit) \<times> 's) \<Rightarrow> 's \<Rightarrow> retcode \<times> 's" where
  "handleException wrapped s =
     (case wrapped s of
        (Inl e, s') \<Rightarrow> (DEVICE_ERR e, s')
      | (Inr u, s') \<Rightarrow> (DEVICE_OK, s'))"

text \<open>\<open>WdiAutofocus::onNewConnection\<close> (WdiAutofocus.cpp, lines 357-366).\<close>

definition onNewConnection :: "transport \<Rightarrow> WdiAutofocus \<Rightarrow> (error + unit) \<times> WdiAutofocus" where
  "onNewConnection env s =
     bindE (WdiAutofocusProvider_openTcp env (wdiHost_m s) (wdiPort_m s))
       (\<lambda>p s1.
          bindE (Connection_getDevice env (focusAddress_m s1))
            (\<lambda>d. bindE (Device_getAxis env d (focusAxis_m s1))
              (\<lambda>focusAxis.
                 bindE (\<lambda>s2. if objectiveTurretAddress_m s2 > 0
                              then bindE (Connection_getDevice env (objectiveTurretAddress_m s2))
                                     (\<lambda>t s3. (Inr (Some t), s3)) s2
                              else (Inr None, s2))
                   (\<lambda>turretDevice s4.
                      (Inr (), s4\<lparr>autofocus_m :=
                         \<lparr>af_providerId = getProviderId (provider_m s4),
                          af_focusAxis = focusAxis,
                          af_objectiveTurret = turretDevice\<rparr>\<rparr>))))
            (s1\<lparr>provider_m := p\<rparr>))
       (ZaberBase_onNewConnection s)"

text \<open>
  Modelled from the spec: \<open>ZaberBase::ensureConnected\<close> (Zaber.cpp is not among the
  sources). Section 4.1: if the state is Disconnected it establishes the connection (the
  work of \<open>onNewConnection\<close>) and sets the state to Connected; it fails with
  ConnectionError if the endpoint is unreachable or an address does not resolve, and the
  state then remains Disconnected. With a connection it does nothing.
\<close>

definition ensureConnected :: "transport \<Rightarrow> WdiAutofocus \<Rightarrow> (error + unit) \<times> WdiAutofocus" where
  "ensureConnected env s =
     (if connection_m s = Connected then (Inr (), s)
      else (case onNewConnection env s of
              (Inl e, s') \<Rightarrow> (Inl ConnectionError, s'\<lparr>connection_m := Disconnected\<rparr>)
            | (Inr u, s') \<Rightarrow> (Inr (), s'\<lparr>connection_m := Connected\<rparr>)))"

subsection \<open>Property handlers\<close>

text \<open>
  A handler gets the property it is bound to (\<open>pProp\<close>, here its value) and the action
  type; it returns its code, the property's value and the object.
  \<open>WdiAutofocus::LimitMinGetSet\<close> and \<open>WdiAutofocus::LimitMaxGetSet\<close>
  (WdiAutofocus.cpp, lines 307-355).
\<close>

definition LimitMinGetSet :: "transport \<Rightarrow> real \<Rightarrow> ActionType \<Rightarrow> WdiAutofocus \<Rightarrow> retcode \<times> real \<times> WdiAutofocus" where
  "LimitMinGetSet env pProp eAct s =
     (if eAct = AfterSet then
        (let newLimit = pProp;
             update = (limitMin_m s \<noteq> newLimit);
             s1 = s\<lparr>limitMin_m := newLimit\<rparr>
         in if update then
              (case handleException
                      (bindE (ensureConnected env)
                         (\<lambda>u s2. Autofocus_setLimitMin env (autofocus_m s2)
                                    (limitMin_m s2 * xLdaNativePerMm) s2)) s1 of
                 (ret, s3) \<Rightarrow> (ret, pProp, s3))
            else (DEVICE_OK, pProp, s1))
      else if eAct = BeforeGet then (DEVICE_OK, limitMin_m s, s)
      else (DEVICE_OK, pProp, s))"

definition LimitMaxGetSet :: "transport \<Rightarrow> real \<Rightarrow> ActionType \<Rightarrow> WdiAutofocus \<Rightarrow> retcode \<times> real \<times> WdiAutofocus" where
  "LimitMaxGetSet env pProp eAct s =
     (if eAct = AfterSet then
        (let newLimit = pProp;
             update = (limitMax_m s \<noteq> newLimit);
             s1 = s\<lparr>limitMax_m := newLimit\<rparr>
         in if update then
              (case handleException
                      (bindE (ensureConnected env)
                         (\<lambda>u s2. Autofocus_setLimitMax env (autofocus_m s2)
                                    (limitMax_m s2 * xLdaNativePerMm) s2)) s1 of
                 (ret, s3) \<Rightarrow> (ret, pProp, s3))
            else (DEVICE_OK, pProp, s1))
      else if eAct = BeforeGet then (DEVICE_OK, limitMax_m s, s)
      else (DEVICE_OK, pProp, s))"

text \<open>
  The handlers of the connection-relevant properties (WdiAutofocus.cpp, lines 175-305).
  Each keeps the order of the source's branches.
\<close>

definition WdiHostGetSet :: "string \<Rightarrow> ActionType \<Rightarrow> WdiAutofocus \<Rightarrow> retcode \<times> string \<times> WdiAutofocus" where
  "WdiHostGetSet pProp eAct s =
     (if eAct = BeforeGet then (DEVICE_OK, wdiHost_m s, s)
      else if eAct = AfterSet then
        (let s1 = (if initialized_m s then resetConnection s else s)
         in (DEVICE_OK, pProp, s1\<lparr>wdiHost_m := pProp\<rparr>))
      else (DEVICE_OK, pProp, s))"

definition WdiPortGetSet :: "int \<Rightarrow> ActionType \<Rightarrow> WdiAutofocus \<Rightarrow> retcode \<times> int \<times> WdiAutofocus" where
  "WdiPortGetSet pProp eAct s =
     (if eAct = BeforeGet then (DEVICE_OK, wdiPort_m s, s)
      else if eAct = AfterSet then
        (let s1 = (if initialized_m s then resetConnection s else s)
         in (DEVICE_OK, pProp, s1\<lparr>wdiPort_m := pProp\<rparr>))
      else (DEVICE_OK, pProp, s))"

definition PortGetSet :: "string \<Rightarrow> ActionType \<Rightarrow> WdiAutofocus \<Rightarrow> retcode \<times> string \<times> WdiAutofocus" where
  "PortGetSet pProp eAct s =
     (if eAct = BeforeGet then (DEVICE_OK, port_m s, s)
      else if eAct = AfterSet then
        (let s1 = (if initialized_m s then resetConnection s else s)
         in (DEVICE_OK, pProp, s1\<lparr>port_m := pProp\<rparr>))
      else (DEVICE_OK, pProp, s))"

definition FocusAddressGetSet :: "int \<Rightarrow> ActionType \<Rightarrow> WdiAutofocus \<Rightarrow> retcode \<times> int \<times> WdiAutofocus" where
  "FocusAddressGetSet pProp eAct s =
     (if eAct = AfterSet then
        (let s1 = (if initialized_m s then resetConnection s else s)
         in (DEVICE_OK, pProp, s1\<lparr>focusAddress_m := pProp\<rparr>))
      else if eAct = BeforeGet then (DEVICE_OK, focusAddress_m s, s)
      else (DEVICE_OK, pProp, s))"

definition FocusAxisGetSet :: "int \<Rightarrow> ActionType \<Rightarrow> WdiAutofocus \<Rightarrow> retcode \<times> int \<times> WdiAutofocus" where
  "FocusAxisGetSet pProp eAct s =
     (if eAct = AfterSet then
        (let s1 = (if initialized_m s then resetConnection s else s)
         in (DEVICE_OK, pProp, s1\<lparr>focusAxis_m := pProp\<rparr>))
      else if eAct = BeforeGet then (DEVICE_OK, focusAxis_m s, s)
      else (DEVICE_OK, pProp, s))"

definition ObjectiveTurretAddressGetSet :: "int \<Rightarrow> ActionType \<Rightarrow> WdiAutofocus \<Rightarrow> retcode \<times> int \<times> WdiAutofocus" where
  "ObjectiveTurretAddressGetSet pProp eAct s =
     (if eAct = AfterSet then
        (let s1 = (if initialized_m s then resetConnection s else s)
         in (DEVICE_OK, pProp, s1\<lparr>objectiveTurretAddress_m := pProp\<rparr>))
      else if eAct = BeforeGet then (DEVICE_OK, objectiveTurretAddress_m s, s)
      else (DEVICE_OK, pProp, s))"

subsection \<open>Status queries and focus operations\<close>

text \<open>
  \<open>WdiAutofocus::Busy\<close> (lines 156-166). The lambda captures the local \<open>busy\<close> by
  reference: its state is the pair of that local and the object.
\<close>

definition Busy :: "transport \<Rightarrow> WdiAutofocus \<Rightarrow> bool \<times> WdiAutofocus" where
  "Busy env s =
     (let busy = False in
      case handleException
             (\<lambda>(busy, s0).
                case ensureConnected env s0 of
                  (Inl e, s1) \<Rightarrow> (Inl e, (busy, s1))
                | (Inr u, s1) \<Rightarrow>
                    (case Axis_isBusy env (getFocusAxis (autofocus_m s1)) s1 of
                       (Inl e, s2) \<Rightarrow> (Inl e, (busy, s2))
                     | (Inr b, s2) \<Rightarrow> (Inr (), (b, s2))))
             (busy, s) of
        (ret, (busy', s')) \<Rightarrow> (ret = DEVICE_OK \<and> busy', s'))"

text \<open>
  \<open>WdiAutofocus::GetContinuousFocusing\<close> (lines 430-437). \<open>state\<close> is the caller's
  variable, passed by reference: it comes in with the caller's value and goes out.
\<close>

definition GetContinuousFocusing :: "transport \<Rightarrow> bool \<Rightarrow> WdiAutofocus \<Rightarrow> retcode \<times> bool \<times> WdiAutofocus" where
  "GetContinuousFocusing env state s =
     (case handleException
             (\<lambda>(state, s0).
                case ensureConnected env s0 of
                  (Inl e, s1) \<Rightarrow> (Inl e, (state, s1))
                | (Inr u, s1) \<Rightarrow>
                    (case Axis_isBusy env (getFocusAxis (autofocus_m s1)) s1 of
                       (Inl e, s2) \<Rightarrow> (Inl e, (state, s2))
                     | (Inr b, s2) \<Rightarrow> (Inr (), (b, s2))))
             (state, s) of
        (ret, (state', s')) \<Rightarrow> (ret, state', s'))"

text \<open>\<open>WdiAutofocus::IsContinuousFocusLocked\<close> (lines 439-449).\<close>

definition IsContinuousFocusLocked :: "transport \<Rightarrow> WdiAutofocus \<Rightarrow> bool \<times> WdiAutofocus" where
  "IsContinuousFocusLocked env s =
     (let locked = False in
      case handleException
             (\<lambda>(locked, s0).
                case ensureConnected env s0 of
                  (Inl e, s1) \<Rightarrow> (Inl e, (locked, s1))
                | (Inr u, s1) \<Rightarrow>
                    (case Autofocus_getStatus env (autofocus_m s1) s1 of
                       (Inl e, s2) \<Rightarrow> (Inl e, (locked, s2))
                     | (Inr status, s2) \<Rightarrow> (Inr (), (getInFocus status, s2))))
             (locked, s) of
        (ret, (locked', s')) \<Rightarrow> (ret = DEVICE_OK \<and> locked', s'))"

text \<open>
  The conversion of an \<open>int\<close> to \<open>float\<close> (binary32): the nearest value with 24
  significant bits, a tie going to the even one. \<open>excess_bits a\<close> is the number of bits
  that \<open>a\<close> has beyond 24, \<open>round_to_even a e\<close> rounds \<open>a\<close> to a multiple of \<open>2 ^ e\<close>.
  An \<open>int\<close> is far below the largest \<open>float\<close>, so there is no overflow.
\<close>

function excess_bits :: "nat \<Rightarrow> nat" where
  "excess_bits a = (if a < 2 ^ 24 then 0 else Suc (excess_bits (a div 2)))"
  by pat_completeness auto
termination
  by (relation "measure id") auto

declare excess_bits.simps [simp del]

definition round_to_even :: "nat \<Rightarrow> nat \<Rightarrow> nat" where
  "round_to_even a e =
     (let q = a div 2 ^ e; r = a mod 2 ^ e
      in (if 2 ^ e < 2 * r \<or> (2 * r = 2 ^ e \<and> odd q) then q + 1 else q) * 2 ^ e)"

definition int_to_float :: "int \<Rightarrow> real" where
  "int_to_float n =
     (let a = nat \<bar>n\<bar>; m = round_to_even a (excess_bits a)
      in if n < 0 then - real m else real m)"

text \<open>
  \<open>WdiAutofocus::ReadWdiPosition\<close> (lines 451-458). \<open>position\<close> is passed by reference.
  \<open>positionInt[0]\<close> is the first element of the vector read; on an empty vector C++ leaves
  it undefined and so does \<open>!\<close> here. In \<open>positionInt[0] / 1024.0f\<close> the integer is
  converted to \<open>float\<close> first; the division of a \<open>float\<close> by 1024, a power of two, is
  exact in this range, and so are the absolute value and the conversion to \<open>double\<close> in
  \<open>GetCurrentFocusScore\<close>.
\<close>

definition ReadWdiPosition :: "transport \<Rightarrow> real \<Rightarrow> WdiAutofocus \<Rightarrow> retcode \<times> real \<times> WdiAutofocus" where
  "ReadWdiPosition env position s =
     (case handleException
             (\<lambda>(position, s0).
                case ensureConnected env s0 of
                  (Inl e, s1) \<Rightarrow> (Inl e, (position, s1))
                | (Inr u, s1) \<Rightarrow>
                    (case WdiAutofocusProvider_genericRead env (provider_m s1) 41 4 1 0 ''t'' s1 of
                       (Inl e, s2) \<Rightarrow> (Inl e, (position, s2))
                     | (Inr positionInt, s2) \<Rightarrow>
                         (Inr (), (int_to_float (positionInt ! 0) / 1024, s2))))
             (position, s) of
        (ret, (position', s')) \<Rightarrow> (ret, position', s'))"

text \<open>
  \<open>WdiAutofocus::GetCurrentFocusScore\<close> (lines 393-399). The local \<open>position\<close> is not
  initialised: its starting value is a parameter here. \<open>score\<close> is assigned whatever
  the read returned.
\<close>

definition GetCurrentFocusScore :: "transport \<Rightarrow> real \<Rightarrow> WdiAutofocus \<Rightarrow> retcode \<times> real \<times> WdiAutofocus" where
  "GetCurrentFocusScore env position s =
     (case ReadWdiPosition env position s of
        (ret, position', s') \<Rightarrow> (ret, \<bar>position'\<bar>, s'))"

definition GetLastFocusScore :: "transport \<Rightarrow> real \<Rightarrow> WdiAutofocus \<Rightarrow> retcode \<times> real \<times> WdiAutofocus" where
  "GetLastFocusScore env position s = GetCurrentFocusScore env position s"

text \<open>\<open>FullFocus\<close>, \<open>IncrementalFocus\<close>, \<open>SetContinuousFocusing\<close> (lines 368-386, 416-428).\<close>

definition FullFocus :: "transport \<Rightarrow> WdiAutofocus \<Rightarrow> retcode \<times> WdiAutofocus" where
  "FullFocus env s =
     handleException
       (bindE (ensureConnected env)
          (\<lambda>u s1. Autofocus_focusOnce env (autofocus_m s1) True s1)) s"

definition IncrementalFocus :: "transport \<Rightarrow> WdiAutofocus \<Rightarrow> retcode \<times> WdiAutofocus" where
  "IncrementalFocus env s =
     handleException
       (bindE (ensureConnected env)
          (\<lambda>u s1. Autofocus_focusOnce env (autofocus_m s1) False s1)) s"

definition SetContinuousFocusing :: "transport \<Rightarrow> bool \<Rightarrow> WdiAutofocus \<Rightarrow> retcode \<times> WdiAutofocus" where
  "SetContinuousFocusing env state s =
     handleException
       (bindE (ensureConnected env)
          (\<lambda>u s1. if state then Autofocus_startFocusLoop env (autofocus_m s1) s1
                   else Autofocus_stopFocusLoop env (autofocus_m s1) s1)) s"

subsection \<open>Construction, initialisation, shutdown\<close>

text \<open>
  Modelled from the spec: the property registration of the host framework
  (\<open>CDeviceBase\<close>, not among the sources; section 6 makes the framework responsible
  for registration and for the enforcement of limits). A property is created under its
  name unless the name is taken; limits are declared for the property of the given name
  and replace the ones it had.
\<close>

definition CreateProperty :: "string \<Rightarrow> prop_value \<Rightarrow> PropertyType \<Rightarrow> bool \<Rightarrow> action \<Rightarrow> bool \<Rightarrow> WdiAutofocus \<Rightarrow> WdiAutofocus" where
  "CreateProperty name v ty ro act pre s =
     (case properties s name of
        Some p \<Rightarrow> s
      | None \<Rightarrow> s\<lparr>properties := (properties s)(name \<mapsto>
          \<lparr>pvalue = v, ptype = ty, readOnly = ro, pAct = act,
           isPreInitProperty = pre, limits = None\<rparr>)\<rparr>)"

definition CreateIntegerProperty :: "string \<Rightarrow> int \<Rightarrow> bool \<Rightarrow> action \<Rightarrow> bool \<Rightarrow> WdiAutofocus \<Rightarrow> WdiAutofocus" where
  "CreateIntegerProperty name v ro act pre = CreateProperty name (PInt v) MM_Integer ro act pre"

definition CreateFloatProperty :: "string \<Rightarrow> real \<Rightarrow> bool \<Rightarrow> action \<Rightarrow> bool \<Rightarrow> WdiAutofocus \<Rightarrow> WdiAutofocus" where
  "CreateFloatProperty name v ro act pre = CreateProperty name (PFloat v) MM_Float ro act pre"

definition SetPropertyLimits :: "string \<Rightarrow> real \<Rightarrow> real \<Rightarrow> WdiAutofocus \<Rightarrow> WdiAutofocus" where
  "SetPropertyLimits name lo hi s =
     (case properties s name of
        None \<Rightarrow> s
      | Some p \<Rightarrow> s\<lparr>properties := (properties s)(name \<mapsto> p\<lparr>limits := Some (lo, hi)\<rparr>)\<rparr>)"

definition g_WdiAutofocusName :: string where
  "g_WdiAutofocusName = ''WdiAutofocus''"

definition g_WdiAutofocusDescription :: string where
  "g_WdiAutofocusDescription = ''Zaber WDI Autofocus device adapter''"

text \<open>
  Modelled from the spec: the part of the object that the base classes construct (their
  constructors are not among the sources). Section 3: no connection exists at
  construction. The serial port name and the default-constructed library handles are
  placeholders: every operation goes through \<open>ensureConnected\<close> before it uses a handle.
\<close>

definition base_init :: WdiAutofocus where
  "base_init =
     \<lparr>initialized_m = False, connection_m = Disconnected, port_m = ''Undefined'',
      wdiPort_m = 0, wdiHost_m = [], focusAddress_m = 0, focusAxis_m = 0,
      objectiveTurretAddress_m = 0, limitMin_m = 0, limitMax_m = 0,
      provider_m = WdiAutofocusProvider (- 1),
      autofocus_m = \<lparr>af_providerId = - 1, af_focusAxis = Axis (Device (- 1)) (- 1),
                     af_objectiveTurret = None\<rparr>,
      properties = Map.empty, calls = []\<rparr>"

text \<open>
  The constructor \<open>WdiAutofocus::WdiAutofocus\<close> (lines 34-75): the member initialisers,
  then the statements of its body in their order, each acting on the object the ones
  before it left.
\<close>

fun statements :: "('s \<Rightarrow> 's) list \<Rightarrow> 's \<Rightarrow> 's" where
  "statements [] s = s"
| "statements (f # fs) s = statements fs (f s)"

definition WdiAutofocus_ctor :: WdiAutofocus where
  "WdiAutofocus_ctor =
     statements
       [\<lambda>s. CreateProperty ''Name'' (PStr g_WdiAutofocusName) MM_String True No_Action False s,
        \<lambda>s. CreateProperty ''Description'' (PStr g_WdiAutofocusDescription) MM_String True
               No_Action False s,
        \<lambda>s. CreateProperty ''Zaber Serial Port'' (PStr (port_m s)) MM_String False
               Act_PortGetSet True s,
        \<lambda>s. CreateProperty ''WDI Hostname/IP'' (PStr (wdiHost_m s)) MM_String False
               Act_WdiHostGetSet True s,
        \<lambda>s. CreateIntegerProperty ''WDI Port'' (wdiPort_m s) False Act_WdiPortGetSet True s,
        \<lambda>s. CreateIntegerProperty ''Focus Stage Device Number'' (focusAddress_m s) False
               Act_FocusAddressGetSet True s,
        \<lambda>s. SetPropertyLimits ''Focus Stage Device Number'' 1 99 s,
        \<lambda>s. CreateIntegerProperty ''Focus Stage Axis Number'' (focusAxis_m s) False
               Act_FocusAxisGetSet True s,
        \<lambda>s. SetPropertyLimits ''Focus Stage Axis Number'' 1 99 s,
        \<lambda>s. CreateIntegerProperty ''Objective Turret Device Number'' (objectiveTurretAddress_m s)
               False Act_ObjectiveTurretAddressGetSet True s,
        \<lambda>s. SetPropertyLimits ''Focus Stage Axis Number'' (- 1) 99 s]
       (base_init\<lparr>focusAddress_m := 1, focusAxis_m := 1, objectiveTurretAddress_m := - 1,
                   wdiHost_m := ''Undefined'', wdiPort_m := 27,
                   limitMin_m := 0, limitMax_m := 25\<rparr>)"

text \<open>
  Modelled from the spec: \<open>UpdateStatus\<close> of the host framework (not among the sources);
  its code is the outside world's.
\<close>

definition UpdateStatus :: "transport \<Rightarrow> WdiAutofocus \<Rightarrow> retcode" where
  "UpdateStatus env s = UpdateStatus_result env"

text \<open>\<open>WdiAutofocus::Initialize\<close> (lines 95-140) and \<open>WdiAutofocus::Shutdown\<close> (lines 143-153).\<close>

definition Initialize :: "transport \<Rightarrow> WdiAutofocus \<Rightarrow> retcode \<times> WdiAutofocus" where
  "Initialize env s =
     (if initialized_m s then (DEVICE_OK, s)
      else
        (case handleException
                (bindE (ensureConnected env)
                   (\<lambda>u s1.
                      bindE (Autofocus_getStatus env (autofocus_m s1))
                        (\<lambda>status s2.
                           let settings = getFocusAxis (autofocus_m s2) in
                           bindE (AxisSettings_get env settings ''motion.tracking.limit.min'')
                             (\<lambda>mn s3.
                                bindE (AxisSettings_get env settings ''motion.tracking.limit.max'')
                                  (\<lambda>mx s4. (Inr (), s4\<lparr>limitMax_m := mx / xLdaNativePerMm\<rparr>))
                                  (s3\<lparr>limitMin_m := mn / xLdaNativePerMm\<rparr>))
                             s2)
                        s1))
                s of
           (ret, s5) \<Rightarrow>
             if ret \<noteq> DEVICE_OK then (ret, s5)
             else
               (let s6 = CreateFloatProperty ''Limit Min [mm]'' (limitMin_m s5) False Act_LimitMinGetSet False s5;
                    s7 = CreateFloatProperty ''Limit Max [mm]'' (limitMax_m s6) False Act_LimitMaxGetSet False s6;
                    ret = UpdateStatus env s7
                in if ret \<noteq> DEVICE_OK then (ret, s7)
                   else if ret = DEVICE_OK then (DEVICE_OK, s7\<lparr>initialized_m := True\<rparr>)
                   else (ret, s7))))"

definition Shutdown :: "WdiAutofocus \<Rightarrow> retcode \<times> WdiAutofocus" where
  "Shutdown s = (DEVICE_OK, if initialized_m s then s\<lparr>initialized_m := False\<rparr> else s)"

subsection \<open>Writing a property\<close>

text \<open>
  The action bound to a property, applied to the property's value.
\<close>

definition invoke_action :: "transport \<Rightarrow> action \<Rightarrow> prop_value \<Rightarrow> ActionType \<Rightarrow> WdiAutofocus \<Rightarrow> retcode \<times> prop_value \<times> WdiAutofocus" where
  "invoke_action env act v eAct s =
     (case (act, v) of
        (Act_PortGetSet, PStr x) \<Rightarrow>
          (case PortGetSet x eAct s of (r, x', s') \<Rightarrow> (r, PStr x', s'))
      | (Act_WdiHostGetSet, PStr x) \<Rightarrow>
          (case WdiHostGetSet x eAct s of (r, x', s') \<Rightarrow> (r, PStr x', s'))
      | (Act_WdiPortGetSet, PInt n) \<Rightarrow>
          (case WdiPortGetSet n eAct s of (r, n', s') \<Rightarrow> (r, PInt n', s'))
      | (Act_FocusAddressGetSet, PInt n) \<Rightarrow>
          (case FocusAddressGetSet n eAct s of (r, n', s') \<Rightarrow> (r, PInt n', s'))
      | (Act_FocusAxisGetSet, PInt n) \<Rightarrow>
          (case FocusAxisGetSet n eAct s of (r, n', s') \<Rightarrow> (r, PInt n', s'))
      | (Act_ObjectiveTurretAddressGetSet, PInt n) \<Rightarrow>
          (case ObjectiveTurretAddressGetSet n eAct s of (r, n', s') \<Rightarrow> (r, PInt n', s'))
      | (Act_LimitMinGetSet, PFloat x) \<Rightarrow>
          (case LimitMinGetSet env x eAct s of (r, x', s') \<Rightarrow> (r, PFloat x', s'))
      | (Act_LimitMaxGetSet, PFloat x) \<Rightarrow>
          (case LimitMaxGetSet env x eAct s of (r, x', s') \<Rightarrow> (r, PFloat x', s'))
      | _ \<Rightarrow> (DEVICE_OK, v, s))"

fun has_type :: "PropertyType \<Rightarrow> prop_value \<Rightarrow> bool" where
  "has_type MM_String (PStr x) = True"
| "has_type MM_Integer (PInt n) = True"
| "has_type MM_Float (PFloat x) = True"
| "has_type ty v = False"

fun within_limits :: "(real \<times> real) option \<Rightarrow> prop_value \<Rightarrow> bool" where
  "within_limits None v = True"
| "within_limits (Some (lo, hi)) (PInt n) = (lo \<le> real_of_int n \<and> real_of_int n \<le> hi)"
| "within_limits (Some (lo, hi)) (PFloat x) = (lo \<le> x \<and> x \<le> hi)"
| "within_limits (Some (lo, hi)) (PStr x) = True"

text \<open>
  Modelled from the spec: the property write of the host framework (\<open>SetProperty\<close> of
  \<open>CDeviceBase\<close>, not among the sources). Section 7: a value outside the declared bounds
  is a ConfigurationError and is rejected before any device interaction, that is, before
  the handler runs; an accepted value is stored and the handler is invoked with
  \<open>AfterSet\<close>.
\<close>

definition SetProperty :: "transport \<Rightarrow> string \<Rightarrow> prop_value \<Rightarrow> WdiAutofocus \<Rightarrow> retcode \<times> WdiAutofocus" where
  "SetProperty env name v s =
     (case properties s name of
        None \<Rightarrow> (DEVICE_ERR ConfigurationError, s)
      | Some p \<Rightarrow>
          if has_type (ptype p) v \<and> within_limits (limits p) v then
            (case invoke_action env (pAct p) v AfterSet
                    (s\<lparr>properties := (properties s)(name \<mapsto> p\<lparr>pvalue := v\<rparr>)\<rparr>) of
               (r, v', s') \<Rightarrow> (r, s'))
          else (DEVICE_ERR ConfigurationError, s))"

section \<open>The camera bridge (PyCamera)\<close>

text \<open>
  What the bridge sees of a Python object: an array object with its shape
  (\<open>PyArray_NDIM\<close> is the length of the shape), element type number, flags and data
  pointer, or something that is not an array. A pointer is an address, \<open>nullptr\<close> is 0.
  \<open>NPY_UINT16\<close> and \<open>NPY_ARRAY_C_CONTIGUOUS\<close> are the constants of the numpy headers.
\<close>

record PyArrayObject =
  shape :: "int list"
  type_num :: int
  array_flags :: int
  array_data :: nat

datatype PyObj = PyArray PyArrayObject | PyOther

definition nullptr :: nat where
  "nullptr = 0"

definition NPY_UINT16 :: int where
  "NPY_UINT16 = 4"

definition NPY_ARRAY_C_CONTIGUOUS :: int where
  "NPY_ARRAY_C_CONTIGUOUS = 1"

definition PyArray_NDIM :: "PyArrayObject \<Rightarrow> int" where
  "PyArray_NDIM a = int (length (shape a))"

definition PyArray_TYPE :: "PyArrayObject \<Rightarrow> int" where
  "PyArray_TYPE a = type_num a"

definition PyArray_FLAGS :: "PyArrayObject \<Rightarrow> int" where
  "PyArray_FLAGS a = array_flags a"

definition PyArray_DIM :: "PyArrayObject \<Rightarrow> nat \<Rightarrow> int" where
  "PyArray_DIM a i = shape a ! i"

definition PyArray_DATA :: "PyArrayObject \<Rightarrow> nat" where
  "PyArray_DATA a = array_data a"

text \<open>
  The camera object: the last image, and the \<open>width\<close> and \<open>height\<close> attributes of the
  scripting object as \<open>as<long>()\<close> reads them. The outside world of one
  \<open>GetImageBuffer\<close>: what \<open>object_.Call("read")\<close> returns and what \<open>CheckError\<close> says
  after it.
\<close>

record CPyCamera =
  lastImage_m :: PyObj
  object_width :: int
  object_height :: int

record script =
  read_result :: PyObj
  CheckError :: retcode

text \<open>
  \<open>CPyCamera::GetImageWidth\<close> and \<open>CPyCamera::GetImageHeight\<close> (lines 72-84): the
  \<open>long\<close> is returned as \<open>unsigned\<close>.
\<close>

definition GetImageWidth :: "CPyCamera \<Rightarrow> 32 word" where
  "GetImageWidth cam = word_of_int (object_width cam)"

definition GetImageHeight :: "CPyCamera \<Rightarrow> 32 word" where
  "GetImageHeight cam = word_of_int (object_height cam)"

text \<open>
  \<open>CPyCamera::GetImageBuffer\<close> (lines 37-66). The dimensions of the array are
  \<open>npy_intp\<close> (64 bits, signed) and are compared with the \<open>unsigned\<close> width and height
  after the usual conversion, which keeps the value of the \<open>unsigned\<close>.
\<close>

definition GetImageBuffer :: "script \<Rightarrow> CPyCamera \<Rightarrow> nat \<times> CPyCamera" where
  "GetImageBuffer env cam =
     (let cam1 = cam\<lparr>lastImage_m := read_result env\<rparr> in
      if CheckError env \<noteq> DEVICE_OK then (nullptr, cam1)
      else
        (case lastImage_m cam1 of
           PyOther \<Rightarrow> (nullptr, cam1)
         | PyArray buffer \<Rightarrow>
             if PyArray_NDIM buffer \<noteq> 2 \<or> PyArray_TYPE buffer \<noteq> NPY_UINT16
                \<or> \<not> (PyArray_FLAGS buffer AND NPY_ARRAY_C_CONTIGUOUS \<noteq> 0)
             then (nullptr, cam1)
             else
               (let w = GetImageWidth cam1;
                    h = GetImageHeight cam1;
                    nh = PyArray_DIM buffer 0;
                    nw = PyArray_DIM buffer 1
                in if nw \<noteq> uint w \<or> nh \<noteq> uint h then (nullptr, cam1)
                   else (PyArray_DATA buffer, cam1))))"

section \<open>Simulated transports\<close>

text \<open>
  A transport on which every call succeeds, one whose endpoint is unreachable, one on
  which no device resolves, one on which every call of an established session fails, one
  on which only the busy read fails, one on which only the status read fails, and one that
  reads a value beyond 24 bits.
\<close>

definition sim_ok :: transport where
  "sim_ok =
     \<lparr>openTcp_result = (\<lambda>host port. Some 7),
      device_resolves = (\<lambda>a. True),
      axis_resolves = (\<lambda>d n. True),
      isBusy_result = (\<lambda>ax. Some True),
      getStatus_result = (\<lambda>af. Some \<lparr>inFocus = True, inRange = True\<rparr>),
      settings_get_result = (\<lambda>ax name. Some 2000000),
      setLimitMin_ok = (\<lambda>af v. True),
      setLimitMax_ok = (\<lambda>af v. True),
      focusOnce_ok = (\<lambda>af scan. True),
      startFocusLoop_ok = (\<lambda>af. True),
      stopFocusLoop_ok = (\<lambda>af. True),
      genericRead_result = (\<lambda>p reg sz cnt off bank. Some [- 2048]),
      UpdateStatus_result = DEVICE_OK\<rparr>"

definition sim_unreachable :: transport where
  "sim_unreachable = sim_ok\<lparr>openTcp_result := (\<lambda>host port. None)\<rparr>"

definition sim_session_fails :: transport where
  "sim_session_fails =
     sim_ok\<lparr>isBusy_result := (\<lambda>ax. None),
            getStatus_result := (\<lambda>af. None),
            setLimitMin_ok := (\<lambda>af v. False),
            setLimitMax_ok := (\<lambda>af v. False),
            genericRead_result := (\<lambda>p reg sz cnt off bank. None)\<rparr>"

definition sim_unresolved :: transport where
  "sim_unresolved = sim_ok\<lparr>device_resolves := (\<lambda>a. False)\<rparr>"

definition sim_busy_read_fails :: transport where
  "sim_busy_read_fails = sim_ok\<lparr>isBusy_result := (\<lambda>ax. None)\<rparr>"

definition sim_status_read_fails :: transport where
  "sim_status_read_fails = sim_ok\<lparr>getStatus_result := (\<lambda>af. None)\<rparr>"

definition sim_large_reading :: transport where
  "sim_large_reading = sim_ok\<lparr>genericRead_result := (\<lambda>p reg sz cnt off bank. Some [16777217])\<rparr>"

section \<open>Verification\<close>

subsection \<open>Running the model\<close>

lemmas lib_defs = WdiAutofocusProvider_openTcp_def Connection_getDevice_def Device_getAxis_def
  Axis_isBusy_def Autofocus_getStatus_def AxisSettings_get_def Autofocus_setLimitMin_def
  Autofocus_setLimitMax_def Autofocus_focusOnce_def Autofocus_startFocusLoop_def
  Autofocus_stopFocusLoop_def WdiAutofocusProvider_genericRead_def lib_call_def ok_def

lemmas sim_defs = sim_ok_def sim_unreachable_def sim_session_fails_def sim_unresolved_def
  sim_busy_read_fails_def sim_status_read_fails_def sim_large_reading_def

lemmas ctor_defs = WdiAutofocus_ctor_def base_init_def CreateProperty_def
  CreateIntegerProperty_def SetPropertyLimits_def

lemma ctor_fields:
  "initialized_m WdiAutofocus_ctor = False"
  "connection_m WdiAutofocus_ctor = Disconnected"
  "wdiHost_m WdiAutofocus_ctor = ''Undefined''"
  "wdiPort_m WdiAutofocus_ctor = 27"
  "focusAddress_m WdiAutofocus_ctor = 1"
  "focusAxis_m WdiAutofocus_ctor = 1"
  "objectiveTurretAddress_m WdiAutofocus_ctor = - 1"
  "limitMin_m WdiAutofocus_ctor = 0"
  "limitMax_m WdiAutofocus_ctor = 25"
  "calls WdiAutofocus_ctor = []"
  "provider_m WdiAutofocus_ctor = WdiAutofocusProvider (- 1)"
  "autofocus_m WdiAutofocus_ctor =
     \<lparr>af_providerId = - 1, af_focusAxis = Axis (Device (- 1)) (- 1), af_objectiveTurret = None\<rparr>"
  by (simp_all add: ctor_defs)

lemma ctor_properties:
  "properties WdiAutofocus_ctor ''Focus Stage Device Number'' =
     Some \<lparr>pvalue = PInt 1, ptype = MM_Integer, readOnly = False, pAct = Act_FocusAddressGetSet,
           isPreInitProperty = True, limits = Some (1, 99)\<rparr>"
  "properties WdiAutofocus_ctor ''Focus Stage Axis Number'' =
     Some \<lparr>pvalue = PInt 1, ptype = MM_Integer, readOnly = False, pAct = Act_FocusAxisGetSet,
           isPreInitProperty = True, limits = Some (- 1, 99)\<rparr>"
  "properties WdiAutofocus_ctor ''Objective Turret Device Number'' =
     Some \<lparr>pvalue = PInt (- 1), ptype = MM_Integer, readOnly = False,
           pAct = Act_ObjectiveTurretAddressGetSet, isPreInitProperty = True, limits = None\<rparr>"
  by (simp_all add: ctor_defs)

lemma sim_fields:
  "openTcp_result sim_ok h p = Some 7"
  "device_resolves sim_ok a"
  "axis_resolves sim_ok d n"
  "isBusy_result sim_ok ax = Some True"
  "getStatus_result sim_ok af = Some \<lparr>inFocus = True, inRange = True\<rparr>"
  "settings_get_result sim_ok ax name = Some 2000000"
  "setLimitMin_ok sim_ok af v"
  "setLimitMax_ok sim_ok af v"
  "focusOnce_ok sim_ok af b"
  "genericRead_result sim_ok pr r1 r2 r3 r4 bank = Some [- 2048]"
  "UpdateStatus_result sim_ok = DEVICE_OK"
  "openTcp_result sim_session_fails h p = Some 7"
  "device_resolves sim_session_fails a"
  "axis_resolves sim_session_fails d n"
  "isBusy_result sim_session_fails ax = None"
  "getStatus_result sim_session_fails af = None"
  "\<not> setLimitMin_ok sim_session_fails af v"
  "\<not> setLimitMax_ok sim_session_fails af v"
  "genericRead_result sim_session_fails pr r1 r2 r3 r4 bank = None"
  "openTcp_result sim_unreachable h p = None"
  "openTcp_result sim_unresolved h p = Some 7"
  "\<not> device_resolves sim_unresolved a"
  "isBusy_result sim_busy_read_fails ax = None"
  "getStatus_result sim_busy_read_fails af = Some \<lparr>inFocus = True, inRange = True\<rparr>"
  "getStatus_result sim_status_read_fails af = None"
  "isBusy_result sim_status_read_fails ax = Some True"
  "genericRead_result sim_large_reading pr r1 r2 r3 r4 bank = Some [16777217]"
  by (simp_all add: sim_defs)

lemma ensureConnected_Connected:
  "connection_m s = Connected \<Longrightarrow> ensureConnected env s = (Inr (), s)"
  by (simp add: ensureConnected_def)

lemma onNewConnection_success:
  assumes "openTcp_result env (wdiHost_m s) (wdiPort_m s) = Some pid"
    and "device_resolves env (focusAddress_m s)"
    and "axis_resolves env (Device (focusAddress_m s)) (focusAxis_m s)"
    and "0 < objectiveTurretAddress_m s \<longrightarrow> device_resolves env (objectiveTurretAddress_m s)"
  shows "onNewConnection env s =
     (Inr (), s\<lparr>provider_m := WdiAutofocusProvider pid,
       autofocus_m := \<lparr>af_providerId = pid,
                       af_focusAxis = Axis (Device (focusAddress_m s)) (focusAxis_m s),
                       af_objectiveTurret = (if 0 < objectiveTurretAddress_m s
                          then Some (Device (objectiveTurretAddress_m s)) else None)\<rparr>,
       calls := calls s @ [Call_openTcp (wdiHost_m s) (wdiPort_m s),
                           Call_getDevice (focusAddress_m s),
                           Call_getAxis (Device (focusAddress_m s)) (focusAxis_m s)]
                  @ (if 0 < objectiveTurretAddress_m s
                     then [Call_getDevice (objectiveTurretAddress_m s)] else [])\<rparr>)"
  using assms
  by (simp add: onNewConnection_def ZaberBase_onNewConnection_def bindE_def lib_defs)

lemma onNewConnection_failure:
  assumes "openTcp_result env (wdiHost_m s) (wdiPort_m s) = None
      \<or> \<not> device_resolves env (focusAddress_m s)
      \<or> \<not> axis_resolves env (Device (focusAddress_m s)) (focusAxis_m s)
      \<or> (0 < objectiveTurretAddress_m s \<and> \<not> device_resolves env (objectiveTurretAddress_m s))"
  shows "\<exists>e. fst (onNewConnection env s) = Inl e"
  using assms
  by (auto simp add: onNewConnection_def ZaberBase_onNewConnection_def bindE_def lib_defs
      split: option.splits)

lemma onNewConnection_frame:
  "connection_m (snd (onNewConnection env s)) = connection_m s"
  "initialized_m (snd (onNewConnection env s)) = initialized_m s"
  "port_m (snd (onNewConnection env s)) = port_m s"
  "wdiHost_m (snd (onNewConnection env s)) = wdiHost_m s"
  "wdiPort_m (snd (onNewConnection env s)) = wdiPort_m s"
  "focusAddress_m (snd (onNewConnection env s)) = focusAddress_m s"
  "focusAxis_m (snd (onNewConnection env s)) = focusAxis_m s"
  "objectiveTurretAddress_m (snd (onNewConnection env s)) = objectiveTurretAddress_m s"
  "limitMin_m (snd (onNewConnection env s)) = limitMin_m s"
  "limitMax_m (snd (onNewConnection env s)) = limitMax_m s"
  "properties (snd (onNewConnection env s)) = properties s"
  by (simp_all add: onNewConnection_def ZaberBase_onNewConnection_def bindE_def lib_defs
      split: option.splits)


lemma onNewConnection_first_call:
  "take (Suc (length (calls s))) (calls (snd (onNewConnection env s))) =
     calls s @ [Call_openTcp (wdiHost_m s) (wdiPort_m s)]"
  by (simp add: onNewConnection_def ZaberBase_onNewConnection_def bindE_def lib_defs
      split: option.splits)

lemma ensureConnected_establishes:
  assumes "connection_m s = Disconnected"
    and "openTcp_result env (wdiHost_m s) (wdiPort_m s) = Some pid"
    and "device_resolves env (focusAddress_m s)"
    and "axis_resolves env (Device (focusAddress_m s)) (focusAxis_m s)"
    and "0 < objectiveTurretAddress_m s \<longrightarrow> device_resolves env (objectiveTurretAddress_m s)"
  shows "ensureConnected env s =
     (Inr (), s\<lparr>provider_m := WdiAutofocusProvider pid,
       autofocus_m := \<lparr>af_providerId = pid,
                       af_focusAxis = Axis (Device (focusAddress_m s)) (focusAxis_m s),
                       af_objectiveTurret = (if 0 < objectiveTurretAddress_m s
                          then Some (Device (objectiveTurretAddress_m s)) else None)\<rparr>,
       calls := calls s @ [Call_openTcp (wdiHost_m s) (wdiPort_m s),
                           Call_getDevice (focusAddress_m s),
                           Call_getAxis (Device (focusAddress_m s)) (focusAxis_m s)]
                  @ (if 0 < objectiveTurretAddress_m s
                     then [Call_getDevice (objectiveTurretAddress_m s)] else []),
       connection_m := Connected\<rparr>)"
  using assms(1) onNewConnection_success [OF assms(2-5)]
  by (simp add: ensureConnected_def)

lemma ensureConnected_fails:
  assumes "connection_m s = Disconnected"
    and "fst (onNewConnection env s) = Inl e"
  shows "ensureConnected env s = (Inl ConnectionError, snd (onNewConnection env s))"
proof -
  obtain s' where o: "onNewConnection env s = (Inl e, s')"
    using assms(2) by (cases "onNewConnection env s") simp
  have "connection_m s' = Disconnected"
    using onNewConnection_frame(1) [of env s] o assms(1) by simp
  then have "s'\<lparr>connection_m := Disconnected\<rparr> = s'" by simp
  with o assms(1) show ?thesis by (simp add: ensureConnected_def)
qed

lemma ensureConnected_success_inv:
  assumes "connection_m s = Disconnected"
    and "fst (ensureConnected env s) = Inr ()"
  shows "\<exists>pid. openTcp_result env (wdiHost_m s) (wdiPort_m s) = Some pid
      \<and> device_resolves env (focusAddress_m s)
      \<and> axis_resolves env (Device (focusAddress_m s)) (focusAxis_m s)
      \<and> (0 < objectiveTurretAddress_m s \<longrightarrow> device_resolves env (objectiveTurretAddress_m s))"
proof (rule ccontr)
  assume "\<not> ?thesis"
  then have "openTcp_result env (wdiHost_m s) (wdiPort_m s) = None
      \<or> \<not> device_resolves env (focusAddress_m s)
      \<or> \<not> axis_resolves env (Device (focusAddress_m s)) (focusAxis_m s)
      \<or> (0 < objectiveTurretAddress_m s \<and> \<not> device_resolves env (objectiveTurretAddress_m s))"
    by auto
  then obtain e where "fst (onNewConnection env s) = Inl e"
    using onNewConnection_failure by blast
  then have "fst (ensureConnected env s) = Inl ConnectionError"
    using ensureConnected_fails [OF assms(1)] by simp
  with assms(2) show False by simp
qed

lemma ensureConnected_connection:
  "connection_m (snd (ensureConnected env s)) =
     (if connection_m s = Connected \<or> fst (ensureConnected env s) = Inr () then Connected
      else Disconnected)"
  by (simp add: ensureConnected_def split: prod.splits sum.splits)

lemma ensureConnected_ctor:
  "ensureConnected sim_ok WdiAutofocus_ctor =
     (Inr (), WdiAutofocus_ctor\<lparr>provider_m := WdiAutofocusProvider 7,
        autofocus_m := \<lparr>af_providerId = 7, af_focusAxis = Axis (Device 1) 1,
                        af_objectiveTurret = None\<rparr>,
        calls := [Call_openTcp ''Undefined'' 27, Call_getDevice 1, Call_getAxis (Device 1) 1],
        connection_m := Connected\<rparr>)"
  "ensureConnected sim_session_fails WdiAutofocus_ctor =
     (Inr (), WdiAutofocus_ctor\<lparr>provider_m := WdiAutofocusProvider 7,
        autofocus_m := \<lparr>af_providerId = 7, af_focusAxis = Axis (Device 1) 1,
                        af_objectiveTurret = None\<rparr>,
        calls := [Call_openTcp ''Undefined'' 27, Call_getDevice 1, Call_getAxis (Device 1) 1],
        connection_m := Connected\<rparr>)"
  using ensureConnected_establishes [of WdiAutofocus_ctor sim_ok 7]
    ensureConnected_establishes [of WdiAutofocus_ctor sim_session_fails 7]
  by (simp_all add: ctor_fields sim_fields)

lemma ensureConnected_calls:
  "connection_m s = Disconnected \<Longrightarrow>
     calls (snd (ensureConnected env s)) = calls (snd (onNewConnection env s))"
  by (simp add: ensureConnected_def split: prod.splits sum.splits)

lemma CreateProperty_frame:
  "initialized_m (CreateProperty n v ty ro act pre s) = initialized_m s"
  "connection_m (CreateProperty n v ty ro act pre s) = connection_m s"
  "autofocus_m (CreateProperty n v ty ro act pre s) = autofocus_m s"
  "limitMin_m (CreateProperty n v ty ro act pre s) = limitMin_m s"
  "limitMax_m (CreateProperty n v ty ro act pre s) = limitMax_m s"
  "calls (CreateProperty n v ty ro act pre s) = calls s"
  by (simp_all add: CreateProperty_def split: option.splits)

lemma Initialize_success:
  assumes "\<not> initialized_m s"
    and "ensureConnected env s = (Inr (), s1)"
    and "getStatus_result env (autofocus_m s1) = Some st"
    and "settings_get_result env (getFocusAxis (autofocus_m s1)) ''motion.tracking.limit.min'' = Some mn"
    and "settings_get_result env (getFocusAxis (autofocus_m s1)) ''motion.tracking.limit.max'' = Some mx"
    and "UpdateStatus_result env = DEVICE_OK"
  shows "fst (Initialize env s) = DEVICE_OK"
    and "initialized_m (snd (Initialize env s))"
    and "connection_m (snd (Initialize env s)) = connection_m s1"
    and "autofocus_m (snd (Initialize env s)) = autofocus_m s1"
    and "limitMin_m (snd (Initialize env s)) = mn / xLdaNativePerMm"
    and "limitMax_m (snd (Initialize env s)) = mx / xLdaNativePerMm"
    and "calls (snd (Initialize env s)) =
           calls s1 @ [Call_getStatus (autofocus_m s1),
                       Call_settings_get (getFocusAxis (autofocus_m s1)) ''motion.tracking.limit.min'',
                       Call_settings_get (getFocusAxis (autofocus_m s1)) ''motion.tracking.limit.max'']"
  using assms
  by (simp_all add: Initialize_def handleException_def bindE_def Autofocus_getStatus_def
      AxisSettings_get_def lib_call_def UpdateStatus_def CreateFloatProperty_def
      CreateProperty_frame Let_def)

lemma Initialize_ctor:
  "fst (Initialize sim_ok WdiAutofocus_ctor) = DEVICE_OK"
  "initialized_m (snd (Initialize sim_ok WdiAutofocus_ctor))"
  "connection_m (snd (Initialize sim_ok WdiAutofocus_ctor)) = Connected"
  "autofocus_m (snd (Initialize sim_ok WdiAutofocus_ctor)) =
     \<lparr>af_providerId = 7, af_focusAxis = Axis (Device 1) 1, af_objectiveTurret = None\<rparr>"
  "limitMin_m (snd (Initialize sim_ok WdiAutofocus_ctor)) = 2"
  "limitMax_m (snd (Initialize sim_ok WdiAutofocus_ctor)) = 2"
  using Initialize_success [of WdiAutofocus_ctor sim_ok
      "snd (ensureConnected sim_ok WdiAutofocus_ctor)" "\<lparr>inFocus = True, inRange = True\<rparr>"
      2000000 2000000]
  by (simp_all add: ensureConnected_ctor ctor_fields sim_fields xLdaNativePerMm_def)

lemma FullFocus_calls:
  "\<exists>ys. calls (snd (FullFocus env s)) = calls (snd (ensureConnected env s)) @ ys"
  by (cases "ensureConnected env s"; cases "fst (ensureConnected env s)")
    (simp_all add: FullFocus_def handleException_def bindE_def Autofocus_focusOnce_def
      lib_call_def split: option.splits)



subsection \<open>Status queries\<close>

text \<open>
  C1, as stated, fails for \<open>GetContinuousFocusing\<close>: on an initialised adapter and a
  transport on which the busy read fails, it returns the error code to its caller and
  leaves the caller's flag (here \<open>True\<close>) as it was.
\<close>

theorem GetContinuousFocusing_propagates_error:
  "fst (GetContinuousFocusing sim_session_fails True (snd (Initialize sim_ok WdiAutofocus_ctor)))
     = DEVICE_ERR DeviceCommunicationError
   \<and> fst (snd (GetContinuousFocusing sim_session_fails True
        (snd (Initialize sim_ok WdiAutofocus_ctor)))) = True"
  by (simp add: GetContinuousFocusing_def handleException_def ensureConnected_Connected
      Initialize_ctor Axis_isBusy_def lib_call_def sim_fields)

text \<open>
  C1 (amended): when the busy read that \<open>Busy\<close> makes after \<open>ensureConnected\<close> fails,
  \<open>Busy\<close> returns false; when the status read that \<open>IsContinuousFocusLocked\<close> makes
  fails, \<open>IsContinuousFocusLocked\<close> returns false. When the busy read fails,
  \<open>GetContinuousFocusing\<close> returns a code other than \<open>DEVICE_OK\<close>
  (DeviceCommunicationError when the connection was live) and does not touch the caller's
  flag. Each query depends on its own read only.
\<close>

theorem status_queries_on_read_failure:
  "(isBusy_result env (getFocusAxis (autofocus_m (snd (ensureConnected env s)))) = None \<longrightarrow>
      fst (Busy env s) = False
      \<and> fst (GetContinuousFocusing env st s) \<noteq> DEVICE_OK
      \<and> fst (snd (GetContinuousFocusing env st s)) = st
      \<and> (connection_m s = Connected \<longrightarrow>
           fst (GetContinuousFocusing env st s) = DEVICE_ERR DeviceCommunicationError))
   \<and> (getStatus_result env (autofocus_m (snd (ensureConnected env s))) = None \<longrightarrow>
      fst (IsContinuousFocusLocked env s) = False)"
proof -
  obtain r s1 where ec: "ensureConnected env s = (r, s1)"
    by (cases "ensureConnected env s")
  have conn: "connection_m s = Connected \<Longrightarrow> r = Inr ()"
    using ec by (simp add: ensureConnected_Connected)
  have b: "fst (Busy env s) = False"
    if "isBusy_result env (getFocusAxis (autofocus_m s1)) = None"
    using ec that
    by (cases r) (simp_all add: Busy_def handleException_def Axis_isBusy_def lib_call_def)
  have g: "fst (GetContinuousFocusing env st s) \<noteq> DEVICE_OK
      \<and> fst (snd (GetContinuousFocusing env st s)) = st"
    if "isBusy_result env (getFocusAxis (autofocus_m s1)) = None"
    using ec that
    by (cases r)
      (simp_all add: GetContinuousFocusing_def handleException_def Axis_isBusy_def lib_call_def)
  have c: "fst (GetContinuousFocusing env st s) = DEVICE_ERR DeviceCommunicationError"
    if "isBusy_result env (getFocusAxis (autofocus_m s1)) = None" "connection_m s = Connected"
    using ec that conn
    by (auto simp add: GetContinuousFocusing_def handleException_def Axis_isBusy_def lib_call_def)
  have l: "fst (IsContinuousFocusLocked env s) = False"
    if "getStatus_result env (autofocus_m s1) = None"
    using ec that
    by (cases r)
      (simp_all add: IsContinuousFocusLocked_def handleException_def Autofocus_getStatus_def
        lib_call_def)
  from b g c l ec show ?thesis by simp
qed

theorem status_queries_on_read_failure_witness:
  "fst (Busy sim_busy_read_fails (snd (Initialize sim_ok WdiAutofocus_ctor))) = False
   \<and> fst (GetContinuousFocusing sim_busy_read_fails True
        (snd (Initialize sim_ok WdiAutofocus_ctor))) = DEVICE_ERR DeviceCommunicationError
   \<and> fst (snd (GetContinuousFocusing sim_busy_read_fails True
        (snd (Initialize sim_ok WdiAutofocus_ctor)))) = True
   \<and> fst (IsContinuousFocusLocked sim_status_read_fails
        (snd (Initialize sim_ok WdiAutofocus_ctor))) = False"
  using status_queries_on_read_failure
    [of sim_busy_read_fails "snd (Initialize sim_ok WdiAutofocus_ctor)" True]
    status_queries_on_read_failure
    [of sim_status_read_fails "snd (Initialize sim_ok WdiAutofocus_ctor)" True]
  by (simp add: sim_fields Initialize_ctor)

subsection \<open>Soft limits\<close>

lemma limit_push_connection:
  "connection_m (snd (handleException (bindE (ensureConnected env)
       (\<lambda>u s2. Autofocus_setLimitMin env (autofocus_m s2) (limitMin_m s2 * xLdaNativePerMm) s2))
       s1)) = connection_m (snd (ensureConnected env s1))"
  "connection_m (snd (handleException (bindE (ensureConnected env)
       (\<lambda>u s2. Autofocus_setLimitMax env (autofocus_m s2) (limitMax_m s2 * xLdaNativePerMm) s2))
       s1)) = connection_m (snd (ensureConnected env s1))"
  by (cases "ensureConnected env s1"; cases "fst (ensureConnected env s1)";
      simp add: handleException_def bindE_def Autofocus_setLimitMin_def
        Autofocus_setLimitMax_def lib_call_def split: option.splits)+

lemma LimitGetSet_state:
  "snd (snd (LimitMinGetSet env v eAct s)) =
     (if eAct = AfterSet \<and> v \<noteq> limitMin_m s
      then snd (handleException (bindE (ensureConnected env)
             (\<lambda>u s2. Autofocus_setLimitMin env (autofocus_m s2)
                        (limitMin_m s2 * xLdaNativePerMm) s2)) (s\<lparr>limitMin_m := v\<rparr>))
      else if eAct = AfterSet then s\<lparr>limitMin_m := v\<rparr> else s)"
  "snd (snd (LimitMaxGetSet env v eAct s)) =
     (if eAct = AfterSet \<and> v \<noteq> limitMax_m s
      then snd (handleException (bindE (ensureConnected env)
             (\<lambda>u s2. Autofocus_setLimitMax env (autofocus_m s2)
                        (limitMax_m s2 * xLdaNativePerMm) s2)) (s\<lparr>limitMax_m := v\<rparr>))
      else if eAct = AfterSet then s\<lparr>limitMax_m := v\<rparr> else s)"
  by (simp_all add: LimitMinGetSet_def LimitMaxGetSet_def split: prod.splits)

text \<open>
  C2: a write of a new value to the minimum (or maximum) limit while connected stores the
  value, then issues the device write of the stored value times 1000000; the code is
  DeviceCommunicationError when that write fails, and the field holds the new value either
  way.
\<close>

theorem limit_write_pushes_scaled_value:
  assumes "connection_m s = Connected" and "v \<noteq> limitMin_m s" and "w \<noteq> limitMax_m s"
  shows "LimitMinGetSet env v AfterSet s =
           ((if setLimitMin_ok env (autofocus_m s) (v * 1000000) then DEVICE_OK
             else DEVICE_ERR DeviceCommunicationError), v,
            s\<lparr>limitMin_m := v,
              calls := calls s @ [Call_setLimitMin (autofocus_m s) (v * 1000000)]\<rparr>)
       \<and> LimitMaxGetSet env w AfterSet s =
           ((if setLimitMax_ok env (autofocus_m s) (w * 1000000) then DEVICE_OK
             else DEVICE_ERR DeviceCommunicationError), w,
            s\<lparr>limitMax_m := w,
              calls := calls s @ [Call_setLimitMax (autofocus_m s) (w * 1000000)]\<rparr>)"
  using assms
  by (simp add: LimitMinGetSet_def LimitMaxGetSet_def handleException_def bindE_def
      ensureConnected_Connected Autofocus_setLimitMin_def Autofocus_setLimitMax_def
      lib_call_def ok_def xLdaNativePerMm_def)

theorem limit_write_pushes_scaled_value_witness:
  "fst (LimitMinGetSet sim_session_fails 5 AfterSet (snd (Initialize sim_ok WdiAutofocus_ctor)))
     = DEVICE_ERR DeviceCommunicationError
   \<and> limitMin_m (snd (snd (LimitMinGetSet sim_session_fails 5 AfterSet
        (snd (Initialize sim_ok WdiAutofocus_ctor))))) = 5
   \<and> calls (snd (snd (LimitMinGetSet sim_session_fails 5 AfterSet
        (snd (Initialize sim_ok WdiAutofocus_ctor)))))
      = calls (snd (Initialize sim_ok WdiAutofocus_ctor))
        @ [Call_setLimitMin \<lparr>af_providerId = 7, af_focusAxis = Axis (Device 1) 1,
                             af_objectiveTurret = None\<rparr> 5000000]
   \<and> fst (LimitMaxGetSet sim_ok 7 AfterSet (snd (Initialize sim_ok WdiAutofocus_ctor)))
     = DEVICE_OK"
  using limit_write_pushes_scaled_value
    [of "snd (Initialize sim_ok WdiAutofocus_ctor)" 5 7 sim_session_fails]
    limit_write_pushes_scaled_value
    [of "snd (Initialize sim_ok WdiAutofocus_ctor)" 5 7 sim_ok]
  by (simp add: Initialize_ctor sim_fields)

text \<open>
  C9: writing the value a limit already holds changes nothing: the object is the same
  (its fields, its connection state, the calls made so far) and the code is
  \<open>DEVICE_OK\<close>.
\<close>

theorem limit_write_same_value_noop:
  "LimitMinGetSet env (limitMin_m s) AfterSet s = (DEVICE_OK, limitMin_m s, s)
   \<and> LimitMaxGetSet env (limitMax_m s) AfterSet s = (DEVICE_OK, limitMax_m s, s)"
  by (simp add: LimitMinGetSet_def LimitMaxGetSet_def)

text \<open>
  C7, as stated, fails: after a write of the host on an initialised adapter the state is
  Disconnected; a write of a new minimum limit then runs \<open>ensureConnected\<close> and, on a
  reachable transport, leaves the state Connected.
\<close>

theorem limit_write_connects:
  "connection_m (snd (snd (WdiHostGetSet ''10.0.0.2'' AfterSet
      (snd (Initialize sim_ok WdiAutofocus_ctor))))) = Disconnected
   \<and> connection_m (snd (snd (LimitMinGetSet sim_ok 1 AfterSet
        (snd (snd (WdiHostGetSet ''10.0.0.2'' AfterSet
           (snd (Initialize sim_ok WdiAutofocus_ctor)))))))) = Connected"
  by (simp add: LimitGetSet_state limit_push_connection WdiHostGetSet_def resetConnection_def
      ensureConnected_connection ensureConnected_establishes [where pid = 7]
      Initialize_ctor sim_fields)

text \<open>
  C7 (amended): a write to a limit never invalidates the connection: a Connected state
  stays Connected. The state changes only from Disconnected to Connected, and only on an
  \<open>AfterSet\<close> of a value that differs from the stored one.
\<close>

theorem limit_write_keeps_connection:
  "(connection_m s = Connected \<longrightarrow>
      connection_m (snd (snd (LimitMinGetSet env v eAct s))) = Connected
      \<and> connection_m (snd (snd (LimitMaxGetSet env v eAct s))) = Connected)
   \<and> (connection_m (snd (snd (LimitMinGetSet env v eAct s))) \<noteq> connection_m s \<longrightarrow>
        connection_m s = Disconnected \<and> eAct = AfterSet \<and> v \<noteq> limitMin_m s)
   \<and> (connection_m (snd (snd (LimitMaxGetSet env v eAct s))) \<noteq> connection_m s \<longrightarrow>
        connection_m s = Disconnected \<and> eAct = AfterSet \<and> v \<noteq> limitMax_m s)"
proof -
  have mn: "connection_m (snd (snd (LimitMinGetSet env v eAct s))) =
      (if eAct = AfterSet \<and> v \<noteq> limitMin_m s
       then connection_m (snd (ensureConnected env (s\<lparr>limitMin_m := v\<rparr>)))
       else connection_m s)"
    by (simp add: LimitGetSet_state limit_push_connection)
  have mx: "connection_m (snd (snd (LimitMaxGetSet env v eAct s))) =
      (if eAct = AfterSet \<and> v \<noteq> limitMax_m s
       then connection_m (snd (ensureConnected env (s\<lparr>limitMax_m := v\<rparr>)))
       else connection_m s)"
    by (simp add: LimitGetSet_state limit_push_connection)
  show ?thesis
    unfolding mn mx
    by (cases "connection_m s") (auto simp add: ensureConnected_connection)
qed

theorem limit_write_keeps_connection_witness:
  "connection_m (snd (Initialize sim_ok WdiAutofocus_ctor)) = Connected
   \<and> connection_m (snd (snd (LimitMinGetSet sim_session_fails 5 AfterSet
        (snd (Initialize sim_ok WdiAutofocus_ctor))))) = Connected
   \<and> connection_m (snd (snd (LimitMaxGetSet sim_session_fails 5 AfterSet
        (snd (Initialize sim_ok WdiAutofocus_ctor))))) = Connected"
  using limit_write_keeps_connection
    [of "snd (Initialize sim_ok WdiAutofocus_ctor)" sim_session_fails 5 AfterSet]
  by (simp add: Initialize_ctor)

subsection \<open>Declared bounds of the configuration\<close>

text \<open>
  C3 at its failing inputs. The constructor declares limits three times: the third
  declaration names the axis number again, so the axis number ends with the bounds
  \<open>[-1, 99]\<close> and the turret device number has none. A write of 0 to the axis number
  and a write of 500 to the turret device number are accepted; a write of 0 to the focus
  device number is rejected before the handler runs.
\<close>

theorem ctor_limits_on_wrong_property:
  "map_option limits (properties WdiAutofocus_ctor ''Focus Stage Device Number'')
     = Some (Some (1, 99))
   \<and> map_option limits (properties WdiAutofocus_ctor ''Focus Stage Axis Number'')
     = Some (Some (- 1, 99))
   \<and> map_option limits (properties WdiAutofocus_ctor ''Objective Turret Device Number'')
     = Some None
   \<and> fst (SetProperty env ''Focus Stage Axis Number'' (PInt 0) WdiAutofocus_ctor) = DEVICE_OK
   \<and> focusAxis_m (snd (SetProperty env ''Focus Stage Axis Number'' (PInt 0) WdiAutofocus_ctor)) = 0
   \<and> fst (SetProperty env ''Objective Turret Device Number'' (PInt 500) WdiAutofocus_ctor)
     = DEVICE_OK
   \<and> objectiveTurretAddress_m
       (snd (SetProperty env ''Objective Turret Device Number'' (PInt 500) WdiAutofocus_ctor)) = 500
   \<and> SetProperty env ''Focus Stage Device Number'' (PInt 0) WdiAutofocus_ctor
     = (DEVICE_ERR ConfigurationError, WdiAutofocus_ctor)"
  by (simp add: SetProperty_def ctor_properties ctor_fields invoke_action_def
      FocusAxisGetSet_def ObjectiveTurretAddressGetSet_def)

subsection \<open>The conversion to float\<close>

lemma excess_bits_small: "a < 2 ^ 24 \<Longrightarrow> excess_bits a = 0"
  by (subst excess_bits.simps) simp

lemma excess_bits_step: "\<not> a < 2 ^ 24 \<Longrightarrow> excess_bits a = Suc (excess_bits (a div 2))"
  by (subst excess_bits.simps) simp

lemma int_to_float_exact:
  assumes "\<bar>n\<bar> \<le> 2 ^ 24"
  shows "int_to_float n = real_of_int n"
proof -
  define a where "a = nat \<bar>n\<bar>"
  from assms have le: "a \<le> 16777216"
    by (simp add: a_def)
  have m: "round_to_even a (excess_bits a) = a"
  proof (cases "a = 16777216")
    case True
    have "excess_bits 16777216 = Suc 0"
      by (simp add: excess_bits_step excess_bits_small)
    then show ?thesis
      by (simp add: True round_to_even_def)
  next
    case False
    with le have "a < 2 ^ 24" by simp
    then show ?thesis
      by (simp add: excess_bits_small round_to_even_def)
  qed
  have "int_to_float n = (if n < 0 then - real a else real a)"
    by (simp only: int_to_float_def Let_def a_def [symmetric] m)
  also have "\<dots> = real_of_int n"
    by (simp add: a_def)
  finally show ?thesis .
qed

lemma int_to_float_rounds:
  "int_to_float 16777217 = 16777216"
  "int_to_float 16777219 = 16777220"
  "int_to_float (- 16777217) = - 16777216"
  by (simp_all add: int_to_float_def Let_def round_to_even_def excess_bits_step
      excess_bits_small)

subsection \<open>The focus score\<close>

text \<open>
  C4, as stated, fails for a reading beyond 24 bits: the integer is converted to
  \<open>float\<close> before the division, so the reading 16777217 gives the score 16384 and not
  16777217 / 1024.
\<close>

theorem GetCurrentFocusScore_rounds_large_reading:
  "fst (snd (GetCurrentFocusScore sim_large_reading 0 (snd (Initialize sim_ok WdiAutofocus_ctor))))
     = 16384
   \<and> fst (snd (GetCurrentFocusScore sim_large_reading 0
        (snd (Initialize sim_ok WdiAutofocus_ctor)))) \<noteq> \<bar>real_of_int 16777217 / 1024\<bar>"
  by (simp add: GetCurrentFocusScore_def ReadWdiPosition_def handleException_def
      ensureConnected_Connected Initialize_ctor WdiAutofocusProvider_genericRead_def
      lib_call_def sim_fields int_to_float_rounds)

text \<open>
  C4 (amended): once \<open>ensureConnected\<close> has succeeded, a read that returns \<open>rawValue\<close>
  first gives, with \<open>DEVICE_OK\<close>, the score \<open>|f / 1024|\<close> where \<open>f\<close> is \<open>rawValue\<close>
  converted to \<open>float\<close>; for \<open>|rawValue| \<le> 2 ^ 24\<close> that is \<open>|rawValue / 1024|\<close>. A
  read that fails gives the code DeviceCommunicationError (and the score is then the
  absolute value of whatever the uninitialised local held).
\<close>

theorem GetCurrentFocusScore_scaled:
  assumes "ensureConnected env s = (Inr (), s1)"
  shows "(genericRead_result env (provider_m s1) 41 4 1 0 ''t'' = Some (rawValue # rest) \<longrightarrow>
            GetCurrentFocusScore env position s =
              (DEVICE_OK, \<bar>int_to_float rawValue / 1024\<bar>,
               s1\<lparr>calls := calls s1 @ [Call_genericRead (provider_m s1) 41 4 1 0 ''t'']\<rparr>)
            \<and> (\<bar>rawValue\<bar> \<le> 2 ^ 24 \<longrightarrow>
                 fst (snd (GetCurrentFocusScore env position s)) = \<bar>real_of_int rawValue / 1024\<bar>))
       \<and> (genericRead_result env (provider_m s1) 41 4 1 0 ''t'' = None \<longrightarrow>
            GetCurrentFocusScore env position s =
              (DEVICE_ERR DeviceCommunicationError, \<bar>position\<bar>,
               s1\<lparr>calls := calls s1 @ [Call_genericRead (provider_m s1) 41 4 1 0 ''t'']\<rparr>))"
  using assms
  by (simp add: GetCurrentFocusScore_def ReadWdiPosition_def handleException_def
      WdiAutofocusProvider_genericRead_def lib_call_def int_to_float_exact)

theorem GetCurrentFocusScore_scaled_witness:
  "fst (snd (GetCurrentFocusScore sim_ok 0 (snd (Initialize sim_ok WdiAutofocus_ctor)))) = 2
   \<and> fst (GetCurrentFocusScore sim_ok 0 (snd (Initialize sim_ok WdiAutofocus_ctor))) = DEVICE_OK
   \<and> fst (GetCurrentFocusScore sim_session_fails 0 (snd (Initialize sim_ok WdiAutofocus_ctor)))
       = DEVICE_ERR DeviceCommunicationError"
  using GetCurrentFocusScore_scaled
      [of sim_ok "snd (Initialize sim_ok WdiAutofocus_ctor)"
          "snd (Initialize sim_ok WdiAutofocus_ctor)" "- 2048" "[]" 0]
    GetCurrentFocusScore_scaled
      [of sim_session_fails "snd (Initialize sim_ok WdiAutofocus_ctor)"
          "snd (Initialize sim_ok WdiAutofocus_ctor)" 0 "[]" 0]
  by (simp add: ensureConnected_Connected Initialize_ctor sim_fields int_to_float_exact)

subsection \<open>Establishing the connection\<close>

text \<open>
  C6: \<open>onNewConnection\<close> resolves the turret device exactly when its address is positive.
  With an address of 0 or less the calls it makes are an initial part of: open the
  endpoint, resolve the focus device, resolve the focus axis; nothing follows them. With a
  positive address, once these three have succeeded, the resolution of the turret device
  is the fourth call. On success the handle holds the turret device exactly when the
  address is positive.
\<close>

theorem onNewConnection_turret_iff_positive:
  "(objectiveTurretAddress_m s \<le> 0 \<longrightarrow>
      (\<exists>k. calls (snd (onNewConnection env s)) =
         calls s @ take k [Call_openTcp (wdiHost_m s) (wdiPort_m s),
                           Call_getDevice (focusAddress_m s),
                           Call_getAxis (Device (focusAddress_m s)) (focusAxis_m s)]))
   \<and> (0 < objectiveTurretAddress_m s
        \<and> openTcp_result env (wdiHost_m s) (wdiPort_m s) \<noteq> None
        \<and> device_resolves env (focusAddress_m s)
        \<and> axis_resolves env (Device (focusAddress_m s)) (focusAxis_m s) \<longrightarrow>
      calls (snd (onNewConnection env s)) =
         calls s @ [Call_openTcp (wdiHost_m s) (wdiPort_m s),
                    Call_getDevice (focusAddress_m s),
                    Call_getAxis (Device (focusAddress_m s)) (focusAxis_m s),
                    Call_getDevice (objectiveTurretAddress_m s)])
   \<and> (fst (onNewConnection env s) = Inr () \<longrightarrow>
        af_objectiveTurret (autofocus_m (snd (onNewConnection env s))) =
          (if 0 < objectiveTurretAddress_m s then Some (Device (objectiveTurretAddress_m s))
           else None))"
proof -
  let ?three = "[Call_openTcp (wdiHost_m s) (wdiPort_m s),
                 Call_getDevice (focusAddress_m s),
                 Call_getAxis (Device (focusAddress_m s)) (focusAxis_m s)]"
  have a: "\<exists>k. calls (snd (onNewConnection env s)) = calls s @ take k ?three"
    if le: "objectiveTurretAddress_m s \<le> 0"
  proof (cases "openTcp_result env (wdiHost_m s) (wdiPort_m s)")
    case None
    then have "calls (snd (onNewConnection env s)) = calls s @ take 1 ?three"
      by (simp add: onNewConnection_def ZaberBase_onNewConnection_def bindE_def lib_defs)
    then show ?thesis by blast
  next
    case (Some pid)
    show ?thesis
    proof (cases "device_resolves env (focusAddress_m s)")
      case False
      with Some have "calls (snd (onNewConnection env s)) = calls s @ take 2 ?three"
        by (simp add: onNewConnection_def ZaberBase_onNewConnection_def bindE_def lib_defs)
      then show ?thesis by blast
    next
      case True
      with Some le have "calls (snd (onNewConnection env s)) = calls s @ take 3 ?three"
        by (simp add: onNewConnection_def ZaberBase_onNewConnection_def bindE_def lib_defs)
      then show ?thesis by blast
    qed
  qed
  have b: "calls (snd (onNewConnection env s)) =
        calls s @ ?three @ [Call_getDevice (objectiveTurretAddress_m s)]"
    if "0 < objectiveTurretAddress_m s"
      and "openTcp_result env (wdiHost_m s) (wdiPort_m s) \<noteq> None"
      and "device_resolves env (focusAddress_m s)"
      and "axis_resolves env (Device (focusAddress_m s)) (focusAxis_m s)"
    using that
    by (auto simp add: onNewConnection_def ZaberBase_onNewConnection_def bindE_def lib_defs)
  have c: "af_objectiveTurret (autofocus_m (snd (onNewConnection env s))) =
        (if 0 < objectiveTurretAddress_m s then Some (Device (objectiveTurretAddress_m s))
         else None)"
    if "fst (onNewConnection env s) = Inr ()"
    using that
    by (auto simp add: onNewConnection_def ZaberBase_onNewConnection_def bindE_def lib_defs
        split: option.splits if_splits)
  from a b c show ?thesis by simp
qed

theorem onNewConnection_turret_iff_positive_witness:
  "calls (snd (onNewConnection sim_ok WdiAutofocus_ctor)) =
     [Call_openTcp ''Undefined'' 27, Call_getDevice 1, Call_getAxis (Device 1) 1]
   \<and> calls (snd (onNewConnection sim_ok (WdiAutofocus_ctor\<lparr>objectiveTurretAddress_m := 2\<rparr>))) =
     [Call_openTcp ''Undefined'' 27, Call_getDevice 1, Call_getAxis (Device 1) 1,
      Call_getDevice 2]
   \<and> af_objectiveTurret (autofocus_m (snd (onNewConnection sim_ok
        (WdiAutofocus_ctor\<lparr>objectiveTurretAddress_m := 2\<rparr>)))) = Some (Device 2)"
  using onNewConnection_turret_iff_positive [of "WdiAutofocus_ctor\<lparr>objectiveTurretAddress_m := 2\<rparr>" sim_ok]
    onNewConnection_success [of sim_ok WdiAutofocus_ctor 7]
    onNewConnection_success [of sim_ok "WdiAutofocus_ctor\<lparr>objectiveTurretAddress_m := 2\<rparr>" 7]
  by (simp add: ctor_fields sim_fields)




subsection \<open>Writes to the connection-relevant configuration\<close>

text \<open>
  C5, as stated, fails: the handlers reset the connection only when the adapter is
  initialised. After \<open>Initialize\<close> and \<open>Shutdown\<close> the connection still exists and the
  adapter is not initialised; a write of the host then leaves the state Connected, and the
  next operation makes its device call without opening the endpoint again.
\<close>

theorem host_write_after_shutdown_keeps_connection:
  "connection_m (snd (Shutdown (snd (Initialize sim_ok WdiAutofocus_ctor)))) = Connected
   \<and> connection_m (snd (snd (WdiHostGetSet ''10.0.0.2'' AfterSet
        (snd (Shutdown (snd (Initialize sim_ok WdiAutofocus_ctor))))))) = Connected
   \<and> wdiHost_m (snd (snd (WdiHostGetSet ''10.0.0.2'' AfterSet
        (snd (Shutdown (snd (Initialize sim_ok WdiAutofocus_ctor))))))) = ''10.0.0.2''
   \<and> calls (snd (FullFocus sim_ok (snd (snd (WdiHostGetSet ''10.0.0.2'' AfterSet
        (snd (Shutdown (snd (Initialize sim_ok WdiAutofocus_ctor))))))))) =
      calls (snd (Initialize sim_ok WdiAutofocus_ctor))
        @ [Call_focusOnce \<lparr>af_providerId = 7, af_focusAxis = Axis (Device 1) 1,
                            af_objectiveTurret = None\<rparr> True]"
  by (simp add: Shutdown_def WdiHostGetSet_def FullFocus_def handleException_def bindE_def
      ensureConnected_Connected Autofocus_focusOnce_def lib_call_def ok_def
      Initialize_ctor sim_fields)

text \<open>
  C5 (amended): on an initialised adapter, an \<open>AfterSet\<close> of the host, the port, the focus
  device number, the focus axis number or the turret device number stores the value and
  leaves the state Disconnected. The next \<open>ensureConnected\<close>, and so the next operation
  (\<open>FullFocus\<close> here), first opens the endpoint with the host and port the object now
  holds; when it succeeds the state is Connected and the handles are built from the values
  the object now holds.
\<close>

theorem config_write_invalidates_connection:
  assumes "initialized_m s"
    and "s' = snd (snd (WdiHostGetSet h AfterSet s))
       \<or> s' = snd (snd (WdiPortGetSet p AfterSet s))
       \<or> s' = snd (snd (FocusAddressGetSet a AfterSet s))
       \<or> s' = snd (snd (FocusAxisGetSet x AfterSet s))
       \<or> s' = snd (snd (ObjectiveTurretAddressGetSet t AfterSet s))"
  shows "connection_m s' = Disconnected
     \<and> wdiHost_m (snd (snd (WdiHostGetSet h AfterSet s))) = h
     \<and> wdiPort_m (snd (snd (WdiPortGetSet p AfterSet s))) = p
     \<and> focusAddress_m (snd (snd (FocusAddressGetSet a AfterSet s))) = a
     \<and> focusAxis_m (snd (snd (FocusAxisGetSet x AfterSet s))) = x
     \<and> objectiveTurretAddress_m (snd (snd (ObjectiveTurretAddressGetSet t AfterSet s))) = t
     \<and> take (Suc (length (calls s'))) (calls (snd (ensureConnected env s')))
         = calls s' @ [Call_openTcp (wdiHost_m s') (wdiPort_m s')]
     \<and> take (Suc (length (calls s'))) (calls (snd (FullFocus env s')))
         = calls s' @ [Call_openTcp (wdiHost_m s') (wdiPort_m s')]
     \<and> (fst (ensureConnected env s') = Inr () \<longrightarrow>
          connection_m (snd (ensureConnected env s')) = Connected
          \<and> (\<exists>pid. openTcp_result env (wdiHost_m s') (wdiPort_m s') = Some pid
                \<and> provider_m (snd (ensureConnected env s')) = WdiAutofocusProvider pid
                \<and> autofocus_m (snd (ensureConnected env s')) =
                    \<lparr>af_providerId = pid,
                     af_focusAxis = Axis (Device (focusAddress_m s')) (focusAxis_m s'),
                     af_objectiveTurret = (if 0 < objectiveTurretAddress_m s'
                        then Some (Device (objectiveTurretAddress_m s')) else None)\<rparr>))"
proof -
  have disc: "connection_m s' = Disconnected"
    using assms
    by (auto simp add: WdiHostGetSet_def WdiPortGetSet_def FocusAddressGetSet_def
        FocusAxisGetSet_def ObjectiveTurretAddressGetSet_def resetConnection_def)
  have stored: "wdiHost_m (snd (snd (WdiHostGetSet h AfterSet s))) = h"
    "wdiPort_m (snd (snd (WdiPortGetSet p AfterSet s))) = p"
    "focusAddress_m (snd (snd (FocusAddressGetSet a AfterSet s))) = a"
    "focusAxis_m (snd (snd (FocusAxisGetSet x AfterSet s))) = x"
    "objectiveTurretAddress_m (snd (snd (ObjectiveTurretAddressGetSet t AfterSet s))) = t"
    by (simp_all add: WdiHostGetSet_def WdiPortGetSet_def FocusAddressGetSet_def
        FocusAxisGetSet_def ObjectiveTurretAddressGetSet_def)
  have first: "take (Suc (length (calls s'))) (calls (snd (ensureConnected env s')))
         = calls s' @ [Call_openTcp (wdiHost_m s') (wdiPort_m s')]"
    using onNewConnection_first_call [of s' env] by (simp add: ensureConnected_calls [OF disc])
  then have len: "Suc (length (calls s')) \<le> length (calls (snd (ensureConnected env s')))"
    by (metis length_append_singleton length_take min.cobounded2 min.commute)
  obtain ys where "calls (snd (FullFocus env s')) = calls (snd (ensureConnected env s')) @ ys"
    using FullFocus_calls by blast
  with first len have op: "take (Suc (length (calls s'))) (calls (snd (FullFocus env s')))
         = calls s' @ [Call_openTcp (wdiHost_m s') (wdiPort_m s')]"
    by simp
  have est: "connection_m (snd (ensureConnected env s')) = Connected
          \<and> (\<exists>pid. openTcp_result env (wdiHost_m s') (wdiPort_m s') = Some pid
                \<and> provider_m (snd (ensureConnected env s')) = WdiAutofocusProvider pid
                \<and> autofocus_m (snd (ensureConnected env s')) =
                    \<lparr>af_providerId = pid,
                     af_focusAxis = Axis (Device (focusAddress_m s')) (focusAxis_m s'),
                     af_objectiveTurret = (if 0 < objectiveTurretAddress_m s'
                        then Some (Device (objectiveTurretAddress_m s')) else None)\<rparr>)"
    if ok: "fst (ensureConnected env s') = Inr ()"
  proof -
    obtain pid where pid: "openTcp_result env (wdiHost_m s') (wdiPort_m s') = Some pid"
      and res: "device_resolves env (focusAddress_m s')"
        "axis_resolves env (Device (focusAddress_m s')) (focusAxis_m s')"
        "0 < objectiveTurretAddress_m s' \<longrightarrow> device_resolves env (objectiveTurretAddress_m s')"
      using ensureConnected_success_inv [OF disc ok] by blast
    show ?thesis
      using pid by (simp add: ensureConnected_establishes [OF disc pid res])
  qed
  from disc stored first op est show ?thesis by simp
qed

theorem config_write_invalidates_connection_witness:
  "connection_m (snd (Initialize sim_ok WdiAutofocus_ctor)) = Connected
   \<and> connection_m (snd (snd (WdiHostGetSet ''10.0.0.2'' AfterSet
        (snd (Initialize sim_ok WdiAutofocus_ctor))))) = Disconnected
   \<and> wdiHost_m (snd (snd (WdiHostGetSet ''10.0.0.2'' AfterSet
        (snd (Initialize sim_ok WdiAutofocus_ctor))))) = ''10.0.0.2''
   \<and> take (Suc (length (calls (snd (snd (WdiHostGetSet ''10.0.0.2'' AfterSet
        (snd (Initialize sim_ok WdiAutofocus_ctor)))))))) (calls (snd (FullFocus sim_ok
            (snd (snd (WdiHostGetSet ''10.0.0.2'' AfterSet
               (snd (Initialize sim_ok WdiAutofocus_ctor))))))))
      = calls (snd (snd (WdiHostGetSet ''10.0.0.2'' AfterSet
           (snd (Initialize sim_ok WdiAutofocus_ctor)))))
        @ [Call_openTcp ''10.0.0.2'' (wdiPort_m (snd (snd (WdiHostGetSet ''10.0.0.2'' AfterSet
           (snd (Initialize sim_ok WdiAutofocus_ctor))))))]"
  using config_write_invalidates_connection
    [of "snd (Initialize sim_ok WdiAutofocus_ctor)"
        "snd (snd (WdiHostGetSet ''10.0.0.2'' AfterSet (snd (Initialize sim_ok WdiAutofocus_ctor))))"
        "''10.0.0.2''" 0 0 0 0 sim_ok]
  by (simp add: Initialize_ctor)

subsection \<open>The image buffer of the camera bridge\<close>

text \<open>
  C10: \<open>GetImageBuffer\<close> returns a pointer other than \<open>nullptr\<close> only when the read
  raised no error and returned an array with two dimensions, element type
  \<open>NPY_UINT16\<close>, the C-contiguous flag set, and shape (height, width) as
  \<open>GetImageHeight\<close> and \<open>GetImageWidth\<close> report them; the pointer is then the array's
  data pointer. In every other case it returns \<open>nullptr\<close>.
\<close>

theorem GetImageBuffer_consistent:
  "(fst (GetImageBuffer env cam) \<noteq> nullptr \<longrightarrow>
      CheckError env = DEVICE_OK
      \<and> (\<exists>buffer. read_result env = PyArray buffer
            \<and> PyArray_NDIM buffer = 2
            \<and> PyArray_TYPE buffer = NPY_UINT16
            \<and> PyArray_FLAGS buffer AND NPY_ARRAY_C_CONTIGUOUS \<noteq> 0
            \<and> shape buffer = [uint (GetImageHeight cam), uint (GetImageWidth cam)]
            \<and> fst (GetImageBuffer env cam) = PyArray_DATA buffer))
   \<and> (CheckError env \<noteq> DEVICE_OK \<or> read_result env = PyOther \<longrightarrow>
        fst (GetImageBuffer env cam) = nullptr)
   \<and> (\<forall>buffer. read_result env = PyArray buffer
          \<and> (PyArray_NDIM buffer \<noteq> 2 \<or> PyArray_TYPE buffer \<noteq> NPY_UINT16
              \<or> PyArray_FLAGS buffer AND NPY_ARRAY_C_CONTIGUOUS = 0
              \<or> shape buffer \<noteq> [uint (GetImageHeight cam), uint (GetImageWidth cam)]) \<longrightarrow>
        fst (GetImageBuffer env cam) = nullptr)
   \<and> lastImage_m (snd (GetImageBuffer env cam)) = read_result env"
proof -
  have two: "shape b = [shape b ! 0, shape b ! 1]" if "length (shape b) = 2" for b :: PyArrayObject
  proof -
    from that obtain x y where "shape b = [x, y]"
      by (cases "shape b"; cases "tl (shape b)") auto
    then show ?thesis by simp
  qed
  have w: "GetImageWidth (cam\<lparr>lastImage_m := v\<rparr>) = GetImageWidth cam"
    and h: "GetImageHeight (cam\<lparr>lastImage_m := v\<rparr>) = GetImageHeight cam" for v
    by (simp_all add: GetImageWidth_def GetImageHeight_def)
  have a: "fst (GetImageBuffer env cam) \<noteq> nullptr \<longrightarrow>
      CheckError env = DEVICE_OK
      \<and> (\<exists>buffer. read_result env = PyArray buffer
            \<and> PyArray_NDIM buffer = 2
            \<and> PyArray_TYPE buffer = NPY_UINT16
            \<and> PyArray_FLAGS buffer AND NPY_ARRAY_C_CONTIGUOUS \<noteq> 0
            \<and> shape buffer = [uint (GetImageHeight cam), uint (GetImageWidth cam)]
            \<and> fst (GetImageBuffer env cam) = PyArray_DATA buffer)"
  proof (cases "read_result env")
    case PyOther
    then show ?thesis by (simp add: GetImageBuffer_def Let_def)
  next
    case (PyArray b)
    show ?thesis
    proof (cases "length (shape b) = 2")
      case False
      with PyArray show ?thesis
        by (simp add: GetImageBuffer_def PyArray_NDIM_def Let_def)
    next
      case True
      from two [OF True] have "shape b = [uint (GetImageHeight cam), uint (GetImageWidth cam)]"
        if "shape b ! 0 = uint (GetImageHeight cam)" "shape b ! 1 = uint (GetImageWidth cam)"
        using that by simp
      with PyArray True show ?thesis
        by (auto simp add: GetImageBuffer_def PyArray_NDIM_def PyArray_DIM_def w h Let_def)
    qed
  qed
  have b: "CheckError env \<noteq> DEVICE_OK \<or> read_result env = PyOther \<longrightarrow>
        fst (GetImageBuffer env cam) = nullptr"
    by (auto simp add: GetImageBuffer_def Let_def)
  have c: "fst (GetImageBuffer env cam) = nullptr"
    if "read_result env = PyArray buffer"
      and "PyArray_NDIM buffer \<noteq> 2 \<or> PyArray_TYPE buffer \<noteq> NPY_UINT16
              \<or> PyArray_FLAGS buffer AND NPY_ARRAY_C_CONTIGUOUS = 0
              \<or> shape buffer \<noteq> [uint (GetImageHeight cam), uint (GetImageWidth cam)]"
    for buffer
    using a that by (cases "fst (GetImageBuffer env cam) = nullptr") auto
  have d: "lastImage_m (snd (GetImageBuffer env cam)) = read_result env"
    by (simp add: GetImageBuffer_def Let_def split: PyObj.splits)
  from a b c d show ?thesis by blast
qed

theorem GetImageBuffer_consistent_witness:
  "fst (GetImageBuffer
      \<lparr>read_result = PyArray \<lparr>shape = [2, 3], type_num = 4, array_flags = 1, array_data = 4096\<rparr>,
       CheckError = DEVICE_OK\<rparr>
      \<lparr>lastImage_m = PyOther, object_width = 3, object_height = 2\<rparr>) = 4096
   \<and> fst (GetImageBuffer
      \<lparr>read_result = PyArray \<lparr>shape = [3, 2], type_num = 4, array_flags = 1, array_data = 4096\<rparr>,
       CheckError = DEVICE_OK\<rparr>
      \<lparr>lastImage_m = PyOther, object_width = 3, object_height = 2\<rparr>) = nullptr"
  using GetImageBuffer_consistent
    [of "\<lparr>read_result = PyArray \<lparr>shape = [3, 2], type_num = 4, array_flags = 1, array_data = 4096\<rparr>,
          CheckError = DEVICE_OK\<rparr>"
        "\<lparr>lastImage_m = PyOther, object_width = 3, object_height = 2\<rparr>"]
  by (simp add: GetImageBuffer_def PyArray_NDIM_def PyArray_TYPE_def PyArray_FLAGS_def
      PyArray_DIM_def PyArray_DATA_def NPY_UINT16_def NPY_ARRAY_C_CONTIGUOUS_def
      GetImageWidth_def GetImageHeight_def nullptr_def Let_def)

end
